theory Spec2Isabelle
  imports Main "HOL-Library.Word"
begin

section \<open>RTC basics: date/time validation and DST scheduling (main.c)\<close>

text \<open>
  The firmware's integers are \<open>uint32_t\<close> and \<open>uint8_t\<close>; they are modelled as
  32-bit and 8-bit words, so that every addition and subtraction wraps as in C.
\<close>

type_synonym u32 = "32 word"
type_synonym u8 = "8 word"

subsection \<open>Macros\<close>

definition UART_TIMEOUT_MS :: u32 where "UART_TIMEOUT_MS = 10"
definition INPUT_TIMEOUT_MS :: u32 where "INPUT_TIMEOUT_MS = 120000"
definition STRING_BUFFER_SIZE :: u32 where "STRING_BUFFER_SIZE = 80"

definition MIN_SPACE_KEY_COUNT_NEW_TIME :: u32 where "MIN_SPACE_KEY_COUNT_NEW_TIME = 5"
definition MIN_SPACE_KEY_COUNT_DST_TIME :: u32 where "MIN_SPACE_KEY_COUNT_DST_TIME = 3"

definition MAX_SEC_OR_MIN :: u32 where "MAX_SEC_OR_MIN = 60"
definition MAX_HOURS_24H :: u32 where "MAX_HOURS_24H = 23"
definition MONTHS_PER_YEAR :: u32 where "MONTHS_PER_YEAR = 12"

definition DST_DISABLED_FLAG :: u32 where "DST_DISABLED_FLAG = 0"
definition DST_VALID_START_TIME_FLAG :: u32 where "DST_VALID_START_TIME_FLAG = 1"
definition DST_VALID_END_TIME_FLAG :: u32 where "DST_VALID_END_TIME_FLAG = 2"
definition DST_ENABLED_FLAG :: u32 where "DST_ENABLED_FLAG = 3"

definition IS_SEC_VALID :: "u32 \<Rightarrow> bool" where
  "IS_SEC_VALID sec = (sec \<le> MAX_SEC_OR_MIN)"

definition IS_MIN_VALID :: "u32 \<Rightarrow> bool" where
  "IS_MIN_VALID mn = (mn \<le> MAX_SEC_OR_MIN)"

definition IS_HOUR_VALID :: "u32 \<Rightarrow> bool" where
  "IS_HOUR_VALID hour = (hour \<le> MAX_HOURS_24H)"

definition IS_MONTH_VALID :: "u32 \<Rightarrow> bool" where
  "IS_MONTH_VALID month = (month > 0 \<and> month \<le> MONTHS_PER_YEAR)"

definition IS_YEAR_VALID :: "u32 \<Rightarrow> bool" where
  "IS_YEAR_VALID year = (year > 0)"

definition IS_LEAP_YEAR :: "u32 \<Rightarrow> bool" where
  "IS_LEAP_YEAR year = ((0 = year mod 4 \<and> 0 \<noteq> year mod 100) \<or> 0 = year mod 400)"

subsection \<open>validate_date_time\<close>

text \<open>
  The table \<open>days_in_month_table[MONTHS_PER_YEAR]\<close> of \<open>uint8_t\<close>. A read of a C array
  outside its bounds has no defined value, so the read is written with its bounds check:
  \<open>None\<close> stands for a read outside the table.
\<close>

definition days_in_month_table :: "u8 list" where
  "days_in_month_table = [31, 28, 31, 30, 31, 30, 31, 31, 30, 31, 30, 31]"

definition table_read :: "u8 list \<Rightarrow> u32 \<Rightarrow> u8 option" where
  "table_read t i = (if unat i < length t then Some (t ! unat i) else None)"

text \<open>
  The first statement of the function: the five range checks, combined with \<open>&\<close> on
  values that are 0 or 1, which is conjunction.
\<close>

definition range_checks :: "u32 \<Rightarrow> u32 \<Rightarrow> u32 \<Rightarrow> u32 \<Rightarrow> u32 \<Rightarrow> bool" where
  "range_checks sec mn hour month year =
     (IS_SEC_VALID sec \<and> IS_MIN_VALID mn \<and> IS_HOUR_VALID hour \<and>
      IS_MONTH_VALID month \<and> IS_YEAR_VALID year)"

text \<open>
  \<open>validate_date_time(sec, min, hour, mday, month, year)\<close>. The parameter \<open>min\<close> is
  written \<open>mn\<close>. The result is \<open>Some b\<close> when the function returns \<open>b\<close>, and \<open>None\<close>
  when it reads outside the table.
\<close>

definition validate_date_time ::
  "u32 \<Rightarrow> u32 \<Rightarrow> u32 \<Rightarrow> u32 \<Rightarrow> u32 \<Rightarrow> u32 \<Rightarrow> bool option" where
  "validate_date_time sec mn hour mday month year =
     (let rslt = range_checks sec mn hour month year in
      if rslt then
        (case table_read days_in_month_table (month - 1) of
           None \<Rightarrow> None
         | Some d \<Rightarrow>
             (let days_in_month = (if IS_LEAP_YEAR year \<and> month = 2 then d + 1 else d)
              in Some (rslt \<and> (mday > 0 \<and> mday \<le> ucast days_in_month))))
      else Some rslt)"

text \<open>
  The specification's wording of the day-of-month bound, on natural numbers: the fixed
  table of month lengths, with February one longer in a leap year.
\<close>

definition spec_leap_year :: "nat \<Rightarrow> bool" where
  "spec_leap_year y = ((y mod 4 = 0 \<and> y mod 100 \<noteq> 0) \<or> y mod 400 = 0)"

definition spec_month_length :: "nat \<Rightarrow> nat \<Rightarrow> nat" where
  "spec_month_length m y =
     [31, 28, 31, 30, 31, 30, 31, 31, 30, 31, 30, 31] ! (m - 1) +
     (if m = 2 \<and> spec_leap_year y then 1 else 0)"

subsection \<open>get_week_of_month\<close>

text \<open>
  The loop of \<open>get_week_of_month\<close>: \<open>while (day > weekend_day) { count++;
  weekend_day += 7; }\<close> on 32-bit values. The addition wraps, so the loop is defined
  as a general recursion; it ends for every input, since 7 is invertible modulo \<open>2^32\<close>
  and \<open>weekend_day\<close> therefore reaches \<open>day\<close> itself at the latest.
\<close>

lemma seven_inverse: "(7 :: u32) * 3067833783 = 1"
  by simp

lemma loop_exit_exists: "\<exists>k. (day :: u32) \<le> weekend_day + 7 * of_nat k"
proof -
  obtain c :: u32 where c: "7 * c = 1"
    using seven_inverse by blast
  have "weekend_day + 7 * of_nat (unat ((day - weekend_day) * c)) =
        weekend_day + (day - weekend_day) * (7 * c)"
    by (simp add: mult.left_commute)
  also have "\<dots> = day"
    by (simp add: c)
  finally have "day \<le> weekend_day + 7 * of_nat (unat ((day - weekend_day) * c))"
    by simp
  then show ?thesis ..
qed

function get_week_of_month_loop :: "u32 \<Rightarrow> u32 \<Rightarrow> u32 \<Rightarrow> u32" where
  "get_week_of_month_loop day count weekend_day =
     (if day > weekend_day
      then get_week_of_month_loop day (count + 1) (weekend_day + 7)
      else count)"
  by pat_completeness auto
termination
proof (relation "measure (\<lambda>(day, count, weekend_day).
         LEAST k. day \<le> weekend_day + 7 * of_nat k)")
  show "wf (measure (\<lambda>(day, count, weekend_day).
         LEAST k. (day :: u32) \<le> weekend_day + 7 * of_nat k))"
    by simp
next
  fix day count weekend_day :: u32
  assume lt: "weekend_day < day"
  let ?P = "\<lambda>k. day \<le> weekend_day + 7 * of_nat k"
  let ?Q = "\<lambda>k. day \<le> (weekend_day + 7) + 7 * of_nat k"
  have P: "?P (LEAST k. ?P k)"
    using loop_exit_exists by (rule LeastI_ex)
  have "\<not> ?P 0" using lt by simp
  with P obtain j where j: "(LEAST k. ?P k) = Suc j"
    by (cases "LEAST k. ?P k") auto
  with P have "?Q j" by (simp add: algebra_simps)
  then have "(LEAST k. ?Q k) \<le> j" by (rule Least_le)
  with j show "((day, count + 1, weekend_day + 7), (day, count, weekend_day))
      \<in> measure (\<lambda>(day, count, weekend_day). LEAST k. day \<le> weekend_day + 7 * of_nat k)"
    by simp
qed

declare get_week_of_month_loop.simps [simp del]

text \<open>
  \<open>get_week_of_month(day, month, year)\<close>. The day-of-week function
  \<open>Cy_RTC_ConvertDayOfWeek\<close> belongs to the peripheral driver library, not to this
  program: it is the parameter \<open>convert\<close>.
\<close>

definition get_week_of_month ::
  "(u32 \<Rightarrow> u32 \<Rightarrow> u32 \<Rightarrow> u32) \<Rightarrow> u32 \<Rightarrow> u32 \<Rightarrow> u32 \<Rightarrow> u32" where
  "get_week_of_month convert day month year =
     (let count = 1;
          day_of_week = convert 1 month year;
          weekend_day = 8 - day_of_week
      in get_week_of_month_loop day count weekend_day)"

text \<open>
  Modelled from the spec: the external day-of-week collaborator, which the specification
  describes as the standard Gregorian day-of-week algorithm with a weekday index from 1
  to 7. This instance is Zeller's congruence with 1 for Sunday and 7 for Saturday, as in
  the driver library; January and February count as months 13 and 14 of the year
  before. It is used to run the program on concrete dates only.
\<close>

definition Cy_RTC_ConvertDayOfWeek :: "u32 \<Rightarrow> u32 \<Rightarrow> u32 \<Rightarrow> u32" where
  "Cy_RTC_ConvertDayOfWeek day month year =
     (let m = (if month < 3 then 12 + month else month);
          y = (if month < 3 then year - 1 else year);
          retVal = (day + (((m + 1) * 26) div 10) + y + (y div 4) + (6 * (y div 100)) +
                    (y div 400)) mod 7
      in if retVal = 0 then 7 else retVal)"

subsection \<open>Data of the driver library and of the program\<close>

datatype cy_en_scb_uart_status_t = CY_SCB_UART_SUCCESS | CY_SCB_UART_BAD_PARAM

datatype cy_en_rtc_status_t =
  CY_RTC_SUCCESS | CY_RTC_BAD_PARAM | CY_RTC_TIMEOUT | CY_RTC_INVALID_STATE | CY_RTC_UNKNOWN

datatype cy_en_rtc_dst_format_t = CY_RTC_DST_RELATIVE | CY_RTC_DST_FIXED

text \<open>
  The structures \<open>cy_stc_rtc_dst_format_t\<close>, \<open>cy_stc_rtc_dst_t\<close> and
  \<open>cy_stc_rtc_config_t\<close>. The fields carry a prefix, since \<open>hour\<close>, \<open>month\<close> and
  \<open>year\<close> are also local variables of the program.
\<close>

record cy_stc_rtc_dst_format_t =
  dst_format :: cy_en_rtc_dst_format_t
  dst_hour :: u32
  dst_dayOfMonth :: u32
  dst_weekOfMonth :: u32
  dst_dayOfWeek :: u32
  dst_month :: u32

record cy_stc_rtc_dst_t =
  startDst :: cy_stc_rtc_dst_format_t
  stopDst :: cy_stc_rtc_dst_format_t

record cy_stc_rtc_config_t =
  rtc_sec :: u32
  rtc_min :: u32
  rtc_hour :: u32
  rtc_dayOfWeek :: u32
  rtc_date :: u32
  rtc_month :: u32
  rtc_year :: u32

definition RTC_CMD_ENABLE_DST :: u8 where "RTC_CMD_ENABLE_DST = 0x31"
definition RTC_CMD_DISABLE_DST :: u8 where "RTC_CMD_DISABLE_DST = 0x32"
definition RTC_CMD_QUIT_CONFIG_DST :: u8 where "RTC_CMD_QUIT_CONFIG_DST = 0x33"
definition FIXED_DST_FORMAT :: u8 where "FIXED_DST_FORMAT = 0x31"
definition RELATIVE_DST_FORMAT :: u8 where "RELATIVE_DST_FORMAT = 0x32"

definition CY_SCB_UART_RX_NO_DATA :: u32 where "CY_SCB_UART_RX_NO_DATA = 0xFFFFFFFF"

text \<open>What the program sends on the serial link: one constructor for each \<open>printf\<close>
  text (the "Invalid values" texts, which differ in their spacing only, are one message),
  and the bytes echoed by \<open>fetch_time_data\<close>.\<close>

datatype msg =
  MSG_DST_STATUS_ACTIVE | MSG_DST_STATUS_INACTIVE | MSG_DST_STATUS_DISABLED |
  MSG_DST_COMMANDS | MSG_ENTER_DST_FORMAT | MSG_ENTER_DST_START | MSG_ENTER_DST_END |
  MSG_INVALID_VALUES | MSG_TIMEOUT | MSG_DST_UPDATED | MSG_DST_DISABLED | MSG_EXIT_DST |
  MSG_ENTER_TIME | MSG_RTC_UPDATED | MSG_NEWLINE

datatype tx = Message msg | Echo u8

text \<open>The calls by which the program commits to the clock, with their arguments.\<close>

datatype rtc_call =
  SetDateAndTimeDirect u32 u32 u32 u32 u32 u32
| EnableDstTime cy_stc_rtc_dst_t cy_stc_rtc_config_t

text \<open>
  The state: the program's variables of static storage (\<open>century_data\<close>,
  \<open>current_time\<close>, \<open>dst_time\<close> and the \<open>dst_data_flag\<close> of \<open>set_dst_feature\<close>),
  and the program's surroundings:
  \<^item> \<open>uart_rx\<close>: the values that the next calls of \<open>Cy_SCB_UART_Get\<close> return, one for
    each call; after the last of them the line stays silent (every further call
    returns \<open>CY_SCB_UART_RX_NO_DATA\<close>);
  \<^item> \<open>uart_tx\<close>: what the program has sent;
  \<^item> \<open>rtc_clock\<close>: the date and time that \<open>Cy_RTC_GetDateAndTime\<close> reads;
  \<^item> \<open>rtc_rslt\<close>: the status that the clock driver returns to the next commits, the
    next one at index 0;
  \<^item> \<open>rtc_calls\<close>: the commits made so far;
  \<^item> \<open>irq_enabled\<close>: whether interrupts are enabled.
\<close>

record state =
  century_data :: u32
  current_time :: cy_stc_rtc_config_t
  dst_time :: cy_stc_rtc_dst_t
  dst_data_flag :: u32
  uart_rx :: "u32 list"
  uart_tx :: "tx list"
  rtc_clock :: cy_stc_rtc_config_t
  rtc_rslt :: "nat \<Rightarrow> cy_en_rtc_status_t"
  rtc_calls :: "rtc_call list"
  irq_enabled :: bool

text \<open>
  How a function of the program ends: it returns; or \<open>handle_error\<close> has parked the
  program (the state is the one it is parked in); or it waits for input for ever; or it
  reads outside an array.
\<close>

datatype 'a outcome = Returned 'a | Halted state | WaitsForever | OutOfBoundsRead

fun and_then :: "'a outcome \<Rightarrow> ('a \<Rightarrow> 'b outcome) \<Rightarrow> 'b outcome" where
  "and_then (Returned x) f = f x"
| "and_then (Halted s) f = Halted s"
| "and_then WaitsForever f = WaitsForever"
| "and_then OutOfBoundsRead f = OutOfBoundsRead"

text \<open>
  The functions of other libraries that the program calls and whose result depends on
  their arguments only: the driver's \<open>Cy_RTC_ConvertDayOfWeek\<close> and
  \<open>Cy_RTC_GetDstStatus\<close>, and the C library's \<open>sscanf\<close> with a format of \<open>n\<close>
  unsigned decimal fields, which gives the values it converted, in order, at most \<open>n\<close>
  of them. They are parameters of the model.
\<close>

record collaborators =
  ConvertDayOfWeek :: "u32 \<Rightarrow> u32 \<Rightarrow> u32 \<Rightarrow> u32"
  GetDstStatus :: "cy_stc_rtc_dst_t \<Rightarrow> cy_stc_rtc_config_t \<Rightarrow> bool"
  sscanf :: "u8 list \<Rightarrow> nat \<Rightarrow> u32 list"

text \<open>\<open>sscanf\<close> stores the values it converted and leaves the other variables as they
  were: the variable at position \<open>i\<close>, which held \<open>old\<close>, afterwards holds:\<close>

definition stored :: "u32 list \<Rightarrow> nat \<Rightarrow> u32 \<Rightarrow> u32" where
  "stored vals i old = (if i < length vals then vals ! i else old)"

text \<open>The two \<open>sscanf\<close> calls of the program: four fields into
  \<open>hour, mday, month, year\<close>, and six fields into
  \<open>hour, min, sec, mday, month, year\<close>; the last argument holds the variables
  before the call, the result holds them after it.\<close>

definition scan4 ::
  "collaborators \<Rightarrow> u8 list \<Rightarrow> u32 \<times> u32 \<times> u32 \<times> u32 \<Rightarrow> u32 \<times> u32 \<times> u32 \<times> u32" where
  "scan4 c buffer vars =
     (case vars of (hour, mday, month, year) \<Rightarrow>
        (let vals = sscanf c buffer 4
         in (stored vals 0 hour, stored vals 1 mday, stored vals 2 month, stored vals 3 year)))"

definition scan6 ::
  "collaborators \<Rightarrow> u8 list \<Rightarrow> u32 \<times> u32 \<times> u32 \<times> u32 \<times> u32 \<times> u32 \<Rightarrow>
   u32 \<times> u32 \<times> u32 \<times> u32 \<times> u32 \<times> u32" where
  "scan6 c buffer vars =
     (case vars of (hour, mn, sec, mday, month, year) \<Rightarrow>
        (let vals = sscanf c buffer 6
         in (stored vals 0 hour, stored vals 1 mn, stored vals 2 sec,
             stored vals 3 mday, stored vals 4 month, stored vals 5 year)))"

definition print :: "msg \<Rightarrow> state \<Rightarrow> state" where
  "print m s = s\<lparr>uart_tx := uart_tx s @ [Message m]\<rparr>"

text \<open>
  The driver's calls on the clock. \<open>Cy_RTC_GetDateAndTime(&current_time)\<close> copies the
  clock into \<open>current_time\<close>. A commit is recorded with its arguments and takes the next
  status of \<open>rtc_rslt\<close>.
\<close>

definition Cy_RTC_GetDateAndTime :: "state \<Rightarrow> state" where
  "Cy_RTC_GetDateAndTime s = s\<lparr>current_time := rtc_clock s\<rparr>"

definition commit :: "rtc_call \<Rightarrow> state \<Rightarrow> cy_en_rtc_status_t \<times> state" where
  "commit c s =
     (rtc_rslt s 0,
      s\<lparr>rtc_rslt := (\<lambda>n. rtc_rslt s (Suc n)), rtc_calls := rtc_calls s @ [c]\<rparr>)"

definition Cy_RTC_EnableDstTime :: "state \<Rightarrow> cy_en_rtc_status_t \<times> state" where
  "Cy_RTC_EnableDstTime s = commit (EnableDstTime (dst_time s) (current_time s)) s"

definition Cy_RTC_SetDateAndTimeDirect ::
  "u32 \<Rightarrow> u32 \<Rightarrow> u32 \<Rightarrow> u32 \<Rightarrow> u32 \<Rightarrow> u32 \<Rightarrow> state \<Rightarrow> cy_en_rtc_status_t \<times> state" where
  "Cy_RTC_SetDateAndTimeDirect sec mn hour date month year s =
     commit (SetDateAndTimeDirect sec mn hour date month year) s"

subsection \<open>handle_error\<close>

text \<open>
  \<open>handle_error\<close> disables the interrupts and calls \<open>CY_ASSERT(0)\<close>, a macro of the
  driver library. Modelled from the spec: the failed assertion parks execution (a
  fatal error halts all further processing, with interrupts disabled).
\<close>

definition handle_error :: "state \<Rightarrow> 'a outcome" where
  "handle_error s = Halted (s\<lparr>irq_enabled := False\<rparr>)"

subsection \<open>get_character\<close>

text \<open>
  \<open>get_character(base, value, timeout)\<close> for the one UART of the program. The first
  argument is what the line will deliver, \<open>v\<close> is the content of \<open>*value\<close> before the
  call; the result is the status, the content of \<open>*value\<close> afterwards and what remains
  of the line. Each element of the line is the result of one \<open>Cy_SCB_UART_Get\<close>: the
  read before the loop, then one read at the end of each turn of the loop. On a silent
  line the countdown ends in \<open>CY_SCB_UART_BAD_PARAM\<close> when \<open>timeout\<close> is not 0; when
  it is 0 the function never returns, which is the result \<open>None\<close>.
\<close>

fun get_character_loop ::
  "u32 list \<Rightarrow> u8 \<Rightarrow> u32 \<Rightarrow> u32 \<Rightarrow> (cy_en_scb_uart_status_t \<times> u8 \<times> u32 list) option" where
  "get_character_loop [] v timeout timeoutTicks =
     (if timeout \<noteq> 0 then Some (CY_SCB_UART_BAD_PARAM, v, []) else None)"
| "get_character_loop (read_value # rx) v timeout timeoutTicks =
     (if read_value = CY_SCB_UART_RX_NO_DATA then
        (if timeout \<noteq> 0 then
           (if timeoutTicks > 0
            then get_character_loop rx v timeout (timeoutTicks - 1)
            else Some (CY_SCB_UART_BAD_PARAM, v, rx))
         else get_character_loop rx v timeout timeoutTicks)
      else Some (CY_SCB_UART_SUCCESS, ucast read_value, rx))"

definition get_character ::
  "u32 list \<Rightarrow> u8 \<Rightarrow> u32 \<Rightarrow> (cy_en_scb_uart_status_t \<times> u8 \<times> u32 list) option" where
  "get_character rx v timeout = get_character_loop rx v timeout timeout"

subsection \<open>fetch_time_data\<close>

text \<open>
  The loop of \<open>fetch_time_data\<close>, with the variables it changes: the line, the buffer,
  \<open>timeout_ms\<close>, \<open>*space_count\<close>, \<open>index\<close>, \<open>rslt\<close>, \<open>ch\<close>, and the bytes echoed
  with \<open>Cy_SCB_UART_Put\<close> (whose retry loop is one echo: the transmitter takes every
  byte in the end). The result is the status returned, what remains of the line, the
  buffer, the count of spaces and the bytes echoed.
\<close>

function fetch_time_data_loop ::
  "u32 list \<Rightarrow> u8 list \<Rightarrow> u32 \<Rightarrow> u32 \<Rightarrow> u32 \<Rightarrow> cy_en_scb_uart_status_t \<Rightarrow> u8 \<Rightarrow> u8 list \<Rightarrow>
   (cy_en_scb_uart_status_t \<times> u32 list \<times> u8 list \<times> u32 \<times> u8 list) option" where
  "fetch_time_data_loop rx buffer timeout_ms space_count index rslt ch echoed =
     (if index < STRING_BUFFER_SIZE then
        (if timeout_ms \<le> UART_TIMEOUT_MS
         then Some (CY_SCB_UART_BAD_PARAM, rx, buffer, space_count, echoed)
         else
           (case get_character rx ch UART_TIMEOUT_MS of
              None \<Rightarrow> None
            | Some (rslt', ch', rx') \<Rightarrow>
                (if rslt' \<noteq> CY_SCB_UART_BAD_PARAM then
                   (if ch' = 0x0A \<or> ch' = 0x0D
                    then Some (rslt', rx', buffer, space_count, echoed)
                    else fetch_time_data_loop rx' (buffer[unat index := ch'])
                           (timeout_ms - UART_TIMEOUT_MS)
                           (if ch' = 0x20 then space_count + 1 else space_count)
                           (index + 1) CY_SCB_UART_SUCCESS ch' (echoed @ [ch']))
                 else fetch_time_data_loop rx' buffer (timeout_ms - UART_TIMEOUT_MS)
                        space_count index rslt' ch' echoed)))
      else Some (rslt, rx, buffer, space_count, echoed))"
  by pat_completeness auto
termination
proof (relation "measure (\<lambda>(rx, buffer, timeout_ms, rest). unat timeout_ms)")
  show "wf (measure (\<lambda>(rx :: u32 list, buffer :: u8 list, timeout_ms :: u32,
      rest :: u32 \<times> u32 \<times> cy_en_scb_uart_status_t \<times> u8 \<times> u8 list). unat timeout_ms))"
    by simp
qed (simp_all add: UART_TIMEOUT_MS_def unat_sub word_le_nat_alt not_le)

declare fetch_time_data_loop.simps [simp del]

text \<open>
  \<open>fetch_time_data(buffer, timeout_ms, space_count)\<close> on the state. \<open>rslt\<close> and
  \<open>ch\<close> have no initial value in the source; the loop writes each of them before it is
  read, and the model starts them at a fixed value. The result is the status, the
  buffer, \<open>*space_count\<close> and the state.
\<close>

definition fetch_time_data ::
  "u8 list \<Rightarrow> u32 \<Rightarrow> state \<Rightarrow> (cy_en_scb_uart_status_t \<times> u8 list \<times> u32 \<times> state) option" where
  "fetch_time_data buffer timeout_ms s =
     (case fetch_time_data_loop (uart_rx s) buffer timeout_ms 0 0 CY_SCB_UART_SUCCESS 0 [] of
        None \<Rightarrow> None
      | Some (rslt, rx, buffer', space_count, echoed) \<Rightarrow>
          Some (rslt, buffer', space_count,
                s\<lparr>uart_rx := rx,
                  uart_tx := uart_tx s @ map Echo echoed @ [Message MSG_NEWLINE]\<rparr>))"

text \<open>A buffer \<open>char buffer[STRING_BUFFER_SIZE] = {0}\<close>.\<close>

definition zero_buffer :: "u8 list" where
  "zero_buffer = replicate 80 0"

text \<open>The loop of \<open>fetch_time_data\<close> as each of its three calls starts it: on an
  empty buffer, with the line as the only thing that differs.\<close>

abbreviation fetch_line ::
  "u32 list \<Rightarrow> u32 \<Rightarrow>
   (cy_en_scb_uart_status_t \<times> u32 list \<times> u8 list \<times> u32 \<times> u8 list) option" where
  "fetch_line rx timeout_ms \<equiv>
     fetch_time_data_loop rx zero_buffer timeout_ms 0 0 CY_SCB_UART_SUCCESS 0 []"

subsection \<open>set_new_time\<close>

text \<open>
  \<open>set_new_time(timeout_ms)\<close>. The six locals \<open>hour, min, sec, mday, month, year\<close>
  have no initial value in the source and keep it where \<open>sscanf\<close> converts fewer than
  six fields: their initial values are the argument \<open>init\<close>, in the order of the
  \<open>sscanf\<close> call.
\<close>

definition set_new_time ::
  "collaborators \<Rightarrow> u32 \<Rightarrow> u32 \<times> u32 \<times> u32 \<times> u32 \<times> u32 \<times> u32 \<Rightarrow> state \<Rightarrow> state outcome" where
  "set_new_time c timeout_ms init s0 =
     (case fetch_time_data zero_buffer timeout_ms (print MSG_ENTER_TIME s0) of
        None \<Rightarrow> WaitsForever
      | Some (rslt, buffer, space_count, s) \<Rightarrow>
          (if rslt \<noteq> CY_SCB_UART_BAD_PARAM then
             (if space_count \<noteq> MIN_SPACE_KEY_COUNT_NEW_TIME
              then Returned (print MSG_INVALID_VALUES s)
              else
                (case scan6 c buffer init of
                   (hour, mn, sec, mday, month, year) \<Rightarrow>
                     (case validate_date_time sec mn hour mday month year of
                        None \<Rightarrow> OutOfBoundsRead
                      | Some valid \<Rightarrow>
                          (if valid then
                             (case Cy_RTC_SetDateAndTimeDirect sec mn hour mday month
                                     (year mod 100) s of
                                (rslt', s1) \<Rightarrow>
                                  (let s2 = s1\<lparr>century_data := (year div 100) * 100\<rparr>
                                   in if CY_RTC_SUCCESS = rslt'
                                      then Returned (print MSG_RTC_UPDATED s2)
                                      else Returned s2))
                           else Returned (print MSG_INVALID_VALUES s)))))
           else Returned (print MSG_TIMEOUT s)))"

subsection \<open>set_dst_feature\<close>

text \<open>
  The six assignments to the fields of \<open>dst_time.startDst\<close>, and again of
  \<open>dst_time.stopDst\<close>, from \<open>fmt\<close> and the parsed \<open>hour, mday, month, year\<close>.
\<close>

definition dst_fields ::
  "collaborators \<Rightarrow> u8 \<Rightarrow> u32 \<Rightarrow> u32 \<Rightarrow> u32 \<Rightarrow> u32 \<Rightarrow> cy_stc_rtc_dst_format_t" where
  "dst_fields c fmt hour mday month year =
     \<lparr>dst_format = (if fmt = FIXED_DST_FORMAT then CY_RTC_DST_FIXED else CY_RTC_DST_RELATIVE),
      dst_hour = hour,
      dst_dayOfMonth = (if fmt = FIXED_DST_FORMAT then mday else 1),
      dst_weekOfMonth =
        (if fmt = FIXED_DST_FORMAT then 1
         else get_week_of_month (ConvertDayOfWeek c) mday month year),
      dst_dayOfWeek =
        (if fmt = FIXED_DST_FORMAT then 1 else ConvertDayOfWeek c mday month year),
      dst_month = month\<rparr>"

text \<open>The report of the DST status at the start of \<open>set_dst_feature\<close>, and the menu.\<close>

definition dst_status :: "collaborators \<Rightarrow> state \<Rightarrow> state" where
  "dst_status c s =
     print MSG_DST_COMMANDS
       (if DST_ENABLED_FLAG = dst_data_flag s then
          (let s1 = Cy_RTC_GetDateAndTime s
           in if GetDstStatus c (dst_time s1) (current_time s1)
              then print MSG_DST_STATUS_ACTIVE s1
              else print MSG_DST_STATUS_INACTIVE s1)
        else print MSG_DST_STATUS_DISABLED s)"

text \<open>
  The start-time step of the enable branch: the prompt, \<open>fetch_time_data\<close> into
  \<open>dst_start_buffer\<close>, and the handling of its result. The locals
  \<open>hour, mday, month, year\<close> are 0 before it; it returns their values with the state,
  since the end-time step parses into the same variables. \<open>sec\<close> and \<open>min\<close> stay 0.
\<close>

definition dst_start_step ::
  "collaborators \<Rightarrow> u32 \<Rightarrow> u8 \<Rightarrow> state \<Rightarrow> ((u32 \<times> u32 \<times> u32 \<times> u32) \<times> state) outcome" where
  "dst_start_step c timeout_ms fmt s0 =
     (case fetch_time_data zero_buffer timeout_ms (print MSG_ENTER_DST_START s0) of
        None \<Rightarrow> WaitsForever
      | Some (rslt, dst_start_buffer, space_count, s) \<Rightarrow>
          (if rslt \<noteq> CY_SCB_UART_BAD_PARAM then
             (if space_count \<noteq> MIN_SPACE_KEY_COUNT_DST_TIME
              then Returned ((0, 0, 0, 0), print MSG_INVALID_VALUES s)
              else
                (case scan4 c dst_start_buffer (0, 0, 0, 0) of
                   (hour, mday, month, year) \<Rightarrow>
                     (case validate_date_time 0 0 hour mday month year of
                        None \<Rightarrow> OutOfBoundsRead
                      | Some valid \<Rightarrow>
                          (if valid \<and> (fmt = FIXED_DST_FORMAT \<or> fmt = RELATIVE_DST_FORMAT)
                           then Returned ((hour, mday, month, year),
                                  s\<lparr>dst_time := (dst_time s)
                                       \<lparr>startDst := dst_fields c fmt hour mday month year\<rparr>,
                                    dst_data_flag := DST_VALID_START_TIME_FLAG\<rparr>)
                           else Returned ((hour, mday, month, year),
                                  print MSG_INVALID_VALUES s)))))
           else Returned ((0, 0, 0, 0), print MSG_TIMEOUT s)))"

text \<open>
  The end-time step, which runs when \<open>dst_data_flag\<close> is
  \<open>DST_VALID_START_TIME_FLAG\<close>; \<open>vars\<close> are the values of \<open>hour, mday, month, year\<close>
  after the start-time step.
\<close>

definition dst_end_step ::
  "collaborators \<Rightarrow> u32 \<Rightarrow> u8 \<Rightarrow> u32 \<times> u32 \<times> u32 \<times> u32 \<Rightarrow> state \<Rightarrow> state outcome" where
  "dst_end_step c timeout_ms fmt vars s0 =
     (case fetch_time_data zero_buffer timeout_ms (print MSG_ENTER_DST_END s0) of
        None \<Rightarrow> WaitsForever
      | Some (rslt, dst_end_buffer, space_count, s) \<Rightarrow>
          (if rslt \<noteq> CY_SCB_UART_BAD_PARAM then
             (if space_count \<noteq> MIN_SPACE_KEY_COUNT_DST_TIME
              then Returned (print MSG_INVALID_VALUES s)
              else
                (case scan4 c dst_end_buffer vars of
                   (hour, mday, month, year) \<Rightarrow>
                     (case validate_date_time 0 0 hour mday month year of
                        None \<Rightarrow> OutOfBoundsRead
                      | Some valid \<Rightarrow>
                          (if valid \<and> (fmt = FIXED_DST_FORMAT \<or> fmt = RELATIVE_DST_FORMAT)
                           then Returned
                                  (s\<lparr>dst_time := (dst_time s)
                                       \<lparr>stopDst := dst_fields c fmt hour mday month year\<rparr>,
                                    dst_data_flag := DST_VALID_END_TIME_FLAG\<rparr>)
                           else Returned (print MSG_INVALID_VALUES s)))))
           else Returned (print MSG_TIMEOUT s)))"

text \<open>The commit of the enable branch, under \<open>DST_VALID_END_TIME_FLAG == dst_data_flag\<close>.\<close>

definition dst_commit_step :: "state \<Rightarrow> state outcome" where
  "dst_commit_step s =
     (if DST_VALID_END_TIME_FLAG = dst_data_flag s then
        (case Cy_RTC_EnableDstTime (Cy_RTC_GetDateAndTime s) of
           (rslt, s1) \<Rightarrow>
             (if CY_RTC_SUCCESS = rslt
              then Returned (print MSG_DST_UPDATED (s1\<lparr>dst_data_flag := DST_ENABLED_FLAG\<rparr>))
              else handle_error s1))
      else Returned s)"

text \<open>The branch \<open>RTC_CMD_ENABLE_DST == dst_cmd\<close>; \<open>fmt\<close> is 0 before its read.\<close>

definition dst_enable :: "collaborators \<Rightarrow> u32 \<Rightarrow> state \<Rightarrow> state outcome" where
  "dst_enable c timeout_ms s0 =
     (let s = print MSG_ENTER_DST_FORMAT s0 in
      case get_character (uart_rx s) 0 timeout_ms of
        None \<Rightarrow> WaitsForever
      | Some (rslt, fmt, rx) \<Rightarrow>
          (if rslt \<noteq> CY_SCB_UART_BAD_PARAM then
             and_then (dst_start_step c timeout_ms fmt (s\<lparr>uart_rx := rx\<rparr>))
               (\<lambda>(vars, s1).
                  and_then
                    (if DST_VALID_START_TIME_FLAG = dst_data_flag s1
                     then dst_end_step c timeout_ms fmt vars s1
                     else Returned s1)
                    dst_commit_step)
           else Returned (print MSG_TIMEOUT (s\<lparr>uart_rx := rx\<rparr>))))"

text \<open>The branch \<open>RTC_CMD_DISABLE_DST == dst_cmd\<close>.\<close>

definition dst_disable :: "state \<Rightarrow> state outcome" where
  "dst_disable s =
     (let stop = \<lparr>dst_format = CY_RTC_DST_FIXED, dst_hour = 0, dst_dayOfMonth = 1,
                  dst_weekOfMonth = 1, dst_dayOfWeek = 1, dst_month = 1\<rparr>;
          s1 = s\<lparr>dst_time := (dst_time s)\<lparr>stopDst := stop\<rparr>\<rparr>;
          s2 = s1\<lparr>dst_time := (dst_time s1)\<lparr>startDst := stopDst (dst_time s1)\<rparr>\<rparr>
      in case Cy_RTC_EnableDstTime (Cy_RTC_GetDateAndTime s2) of
           (rslt, s3) \<Rightarrow>
             (if CY_RTC_SUCCESS = rslt
              then Returned (print MSG_DST_DISABLED (s3\<lparr>dst_data_flag := DST_DISABLED_FLAG\<rparr>))
              else handle_error s3))"

text \<open>
  \<open>set_dst_feature(timeout_ms)\<close>. \<open>dst_cmd\<close> has no initial value in the source and is
  read only after \<open>get_character\<close> has written it; the model starts it at 0.
\<close>

definition set_dst_feature :: "collaborators \<Rightarrow> u32 \<Rightarrow> state \<Rightarrow> state outcome" where
  "set_dst_feature c timeout_ms s0 =
     (let s = dst_status c s0 in
      case get_character (uart_rx s) 0 timeout_ms of
        None \<Rightarrow> WaitsForever
      | Some (rslt, dst_cmd, rx) \<Rightarrow>
          (if rslt \<noteq> CY_SCB_UART_BAD_PARAM then
             (if RTC_CMD_ENABLE_DST = dst_cmd then dst_enable c timeout_ms (s\<lparr>uart_rx := rx\<rparr>)
              else if RTC_CMD_DISABLE_DST = dst_cmd then dst_disable (s\<lparr>uart_rx := rx\<rparr>)
              else if RTC_CMD_QUIT_CONFIG_DST = dst_cmd
                then Returned (print MSG_EXIT_DST (s\<lparr>uart_rx := rx\<rparr>))
              else Returned (s\<lparr>uart_rx := rx\<rparr>))
           else Returned (print MSG_TIMEOUT (s\<lparr>uart_rx := rx\<rparr>))))"

subsection \<open>Instances of the collaborators, to run the program\<close>

text \<open>
  Modelled from the spec: the parse of a line into unsigned decimal fields, which the
  program leaves to the C library's \<open>sscanf\<close>: the text ends at the first zero byte of
  the buffer, each field may follow white space, and the parse stops at the first field
  that does not start with a digit. It is used to run the program on concrete lines
  only.
\<close>

definition is_space :: "u8 \<Rightarrow> bool" where
  "is_space ch = (ch = 0x20 \<or> (0x09 \<le> ch \<and> ch \<le> 0x0D))"

definition is_digit :: "u8 \<Rightarrow> bool" where
  "is_digit ch = (0x30 \<le> ch \<and> ch \<le> 0x39)"

definition decimal_value :: "u8 list \<Rightarrow> u32" where
  "decimal_value ds = foldl (\<lambda>a d. a * 10 + ucast (d - 0x30)) 0 ds"

fun scan_fields :: "nat \<Rightarrow> u8 list \<Rightarrow> u32 list" where
  "scan_fields 0 str = []"
| "scan_fields (Suc n) str =
     (let str' = dropWhile is_space str;
          ds = takeWhile is_digit str'
      in if ds = [] then []
         else decimal_value ds # scan_fields n (dropWhile is_digit str'))"

definition sscanf_decimal :: "u8 list \<Rightarrow> nat \<Rightarrow> u32 list" where
  "sscanf_decimal buffer n = scan_fields n (takeWhile (\<lambda>ch. ch \<noteq> 0) buffer)"

text \<open>The collaborators used to run the program: the two instances above, and a DST
  status that is never in effect (it decides a message only).\<close>

definition reference :: collaborators where
  "reference =
     \<lparr>ConvertDayOfWeek = Cy_RTC_ConvertDayOfWeek,
      GetDstStatus = (\<lambda>d t. False),
      sscanf = sscanf_decimal\<rparr>"

subsection \<open>The specification's null rule, and data for concrete runs\<close>

text \<open>The canonical null rule in the specification's words: fixed format, hour 0,
  month 1, day of week 1, day of month 1, week of month 1; and the schedule whose start
  and end are both this rule.\<close>

definition null_rule :: cy_stc_rtc_dst_format_t where
  "null_rule =
     \<lparr>dst_format = CY_RTC_DST_FIXED, dst_hour = 0, dst_dayOfMonth = 1,
      dst_weekOfMonth = 1, dst_dayOfWeek = 1, dst_month = 1\<rparr>"

definition null_schedule :: cy_stc_rtc_dst_t where
  "null_schedule = \<lparr>startDst = null_rule, stopDst = null_rule\<rparr>"

text \<open>A line that delivers the characters of a text, one at each read, and a state of
  the program at its start (\<open>century_data\<close> is 2000, \<open>dst_data_flag\<close> is 0, the other
  variables are zero) with a given line, and a given status of the clock driver for
  every commit.\<close>

definition typed :: "string \<Rightarrow> u32 list" where
  "typed text = map (\<lambda>ch. of_nat (of_char ch)) text"

text \<open>The buffer and the echo after \<open>fetch_time_data\<close> has taken a text of fewer
  than 80 characters on an empty buffer.\<close>

definition buffer_of :: "string \<Rightarrow> u8 list" where
  "buffer_of text = map ucast (typed text) @ replicate (80 - length text) 0"

definition echo_of :: "string \<Rightarrow> u8 list" where
  "echo_of text = map ucast (typed text)"

text \<open>The line of two flows in a row: an enable flow with the fixed format and a valid
  start line, after which the line is silent for 319 reads (the 29 calls of
  \<open>get_character\<close>, of 11 reads each, that a budget of 300 gives the end prompt); then
  an enable flow with the relative format, a start line with one space only, and a valid
  end line.\<close>

definition second_flow_rx :: "u32 list" where
  "second_flow_rx =
     typed ''1'' @ typed ''2'' @ typed ''02 30\<newline>'' @ typed ''03 25 10 2025\<newline>''"

definition first_flow_rx :: "u32 list" where
  "first_flow_rx =
     typed ''1'' @ typed ''1'' @ typed ''02 30 03 2025\<newline>'' @
     replicate 319 CY_SCB_UART_RX_NO_DATA @ second_flow_rx"

definition zero_rule :: cy_stc_rtc_dst_format_t where
  "zero_rule =
     \<lparr>dst_format = CY_RTC_DST_RELATIVE, dst_hour = 0, dst_dayOfMonth = 0,
      dst_weekOfMonth = 0, dst_dayOfWeek = 0, dst_month = 0\<rparr>"

definition clock0 :: cy_stc_rtc_config_t where
  "clock0 =
     \<lparr>rtc_sec = 0, rtc_min = 0, rtc_hour = 12, rtc_dayOfWeek = 6, rtc_date = 30,
      rtc_month = 10, rtc_year = 26\<rparr>"

definition boot :: "u32 list \<Rightarrow> cy_en_rtc_status_t \<Rightarrow> state" where
  "boot rx status =
     \<lparr>century_data = 2000, current_time = clock0,
      dst_time = \<lparr>startDst = zero_rule, stopDst = zero_rule\<rparr>,
      dst_data_flag = 0, uart_rx = rx, uart_tx = [], rtc_clock = clock0,
      rtc_rslt = (\<lambda>n. status), rtc_calls = [], irq_enabled = True\<rparr>"

section \<open>Properties\<close>

subsection \<open>The calendar validator\<close>

lemma month_cases:
  fixes month :: u32
  assumes "0 < month" "month \<le> 12"
  shows "month \<in> {1, 2, 3, 4, 5, 6, 7, 8, 9, 10, 11, 12}"
proof -
  have "0 < unat month" "unat month \<le> 12"
    using assms by (simp_all add: word_less_nat_alt word_le_nat_alt)
  then have "unat month \<in> {1, 2, 3, 4, 5, 6, 7, 8, 9, 10, 11, 12}"
    by (simp; arith)
  then have "of_nat (unat month) \<in>
      ((of_nat ` {1, 2, 3, 4, 5, 6, 7, 8, 9, 10, 11, 12}) :: u32 set)"
    by (rule imageI)
  then show ?thesis by simp
qed

lemma unat_leap: "IS_LEAP_YEAR year = spec_leap_year (unat year)"
  unfolding IS_LEAP_YEAR_def spec_leap_year_def
  by (simp add: unat_mod flip: unat_eq_zero)

lemma range_checks_iff:
  "range_checks sec mn hour month year =
     (sec \<le> 60 \<and> mn \<le> 60 \<and> hour \<le> 23 \<and> 1 \<le> month \<and> month \<le> 12 \<and> 0 < year)"
  by (auto simp: range_checks_def IS_SEC_VALID_def IS_MIN_VALID_def IS_HOUR_VALID_def
      IS_MONTH_VALID_def IS_YEAR_VALID_def MAX_SEC_OR_MIN_def MAX_HOURS_24H_def
      MONTHS_PER_YEAR_def word_less_nat_alt word_le_nat_alt)

lemma range_checks_month:
  "range_checks sec mn hour month year \<Longrightarrow>
     month \<in> {1, 2, 3, 4, 5, 6, 7, 8, 9, 10, 11, 12}"
  by (rule month_cases)
    (simp_all add: range_checks_def IS_MONTH_VALID_def MONTHS_PER_YEAR_def)

lemma validate_in_range:
  assumes "range_checks sec mn hour month year"
  shows "validate_date_time sec mn hour mday month year =
           Some (1 \<le> unat mday \<and> unat mday \<le> spec_month_length (unat month) (unat year))"
proof -
  have pos: "(0 < mday) = (1 \<le> unat mday)"
    by (simp add: word_less_nat_alt Suc_le_eq)
  from range_checks_month [OF assms] show ?thesis
    using assms
    by (auto simp: validate_date_time_def table_read_def days_in_month_table_def
          spec_month_length_def unat_leap word_le_nat_alt pos)
qed

lemma validate_out_of_range:
  "\<not> range_checks sec mn hour month year \<Longrightarrow>
     validate_date_time sec mn hour mday month year = Some False"
  by (simp add: validate_date_time_def)

lemma validate_date_time_char:
  "validate_date_time sec mn hour mday month year =
     Some (range_checks sec mn hour month year \<and>
           1 \<le> unat mday \<and> unat mday \<le> spec_month_length (unat month) (unat year))"
proof (cases "range_checks sec mn hour month year")
  case True
  then show ?thesis by (simp add: validate_in_range)
next
  case False
  then show ?thesis by (simp add: validate_out_of_range)
qed

text \<open>
  C1. For every input, \<open>validate_date_time\<close> returns true exactly when \<open>sec \<le> 60\<close>,
  \<open>min \<le> 60\<close>, \<open>hour \<le> 23\<close>, \<open>month\<close> is in 1..12, \<open>year > 0\<close> and \<open>mday\<close> is
  between 1 and the table's length of the month, one more for February of a leap year.
  So a single field out of its range gives false, and 60 seconds and 60 minutes are
  accepted like 0: the result with both at 60 is the result with both at 0.
\<close>

theorem validate_date_time_iff:
  "validate_date_time sec mn hour mday month year =
     Some (sec \<le> 60 \<and> mn \<le> 60 \<and> hour \<le> 23 \<and> 1 \<le> month \<and> month \<le> 12 \<and> 0 < year \<and>
           1 \<le> unat mday \<and> unat mday \<le> spec_month_length (unat month) (unat year)) \<and>
   validate_date_time 60 60 hour mday month year = validate_date_time 0 0 hour mday month year"
  by (simp add: validate_date_time_char range_checks_iff)

theorem validate_date_time_iff_witness:
  "validate_date_time 60 60 23 29 2 2024 = Some True \<and>
   validate_date_time 61 0 0 1 1 2024 = Some False \<and>
   validate_date_time 0 61 0 1 1 2024 = Some False \<and>
   validate_date_time 0 0 24 1 1 2024 = Some False \<and>
   validate_date_time 0 0 0 0 1 2024 = Some False \<and>
   validate_date_time 0 0 0 32 1 2024 = Some False \<and>
   validate_date_time 0 0 0 1 0 2024 = Some False \<and>
   validate_date_time 0 0 0 1 13 2024 = Some False \<and>
   validate_date_time 0 0 0 1 1 0 = Some False"
  by (simp add: validate_date_time_iff spec_month_length_def spec_leap_year_def)

text \<open>
  C7. The leap-year predicate holds for 2000 and 2024 and fails for 1900 and 2023. The
  validator accepts 29 February 2024 exactly when the time fields are in range, and
  rejects 29 February 2023 whatever they are.
\<close>

theorem leap_year_february:
  "IS_LEAP_YEAR 2000 \<and> IS_LEAP_YEAR 2024 \<and> \<not> IS_LEAP_YEAR 1900 \<and> \<not> IS_LEAP_YEAR 2023 \<and>
   validate_date_time sec mn hour 29 2 2024 = Some (sec \<le> 60 \<and> mn \<le> 60 \<and> hour \<le> 23) \<and>
   validate_date_time sec mn hour 29 2 2023 = Some False"
  by (simp add: validate_date_time_char range_checks_iff IS_LEAP_YEAR_def
      spec_month_length_def spec_leap_year_def)

theorem leap_year_february_witness:
  "validate_date_time 0 0 0 29 2 2024 = Some True \<and>
   validate_date_time 59 59 23 29 2 2024 = Some True \<and>
   validate_date_time 0 0 0 29 2 2023 = Some False"
  using leap_year_february [of 0 0 0] leap_year_february [of 59 59 23] by simp

text \<open>
  C9. The table of month lengths is read under the range checks only, and these imply
  that \<open>month\<close> is in 1..12 and that the index \<open>month - 1\<close> is inside the table of 12
  entries; so no call of \<open>validate_date_time\<close> reads outside the table.
\<close>

theorem table_read_in_bounds:
  "(range_checks sec mn hour month year \<longrightarrow>
      1 \<le> month \<and> month \<le> 12 \<and> unat (month - 1) < length days_in_month_table \<and>
      table_read days_in_month_table (month - 1) \<noteq> None) \<and>
   validate_date_time sec mn hour mday month year \<noteq> None"
proof -
  have "unat (month - 1) < length days_in_month_table"
    if "range_checks sec mn hour month year"
    using range_checks_month [OF that] by (auto simp: days_in_month_table_def)
  then show ?thesis
    by (auto simp: validate_date_time_char table_read_def range_checks_iff)
qed

theorem table_read_in_bounds_witness:
  "range_checks 0 0 0 12 2024 \<and> unat (12 - 1 :: u32) < length days_in_month_table \<and>
   table_read days_in_month_table (12 - 1) = Some 31 \<and>
   validate_date_time 0 0 0 31 12 2024 = Some True \<and>
   \<not> range_checks 0 0 0 13 2024 \<and> validate_date_time 0 0 0 31 13 2024 = Some False"
  using table_read_in_bounds [of 0 0 0 12 2024 31] table_read_in_bounds [of 0 0 0 13 2024 31]
  by (simp add: range_checks_iff table_read_def days_in_month_table_def
      validate_date_time_def IS_LEAP_YEAR_def)

subsection \<open>The week of the month\<close>

lemma week_step: "0 < x \<Longrightarrow> Suc ((x - 7 + 6) div 7) = (x + 6) div 7" for x :: nat
proof (cases "7 \<le> x")
  case True
  then obtain y where "x = y + 7"
    by (metis add.commute le_Suc_ex)
  then show ?thesis by simp
next
  case False
  assume "0 < x"
  with False have "x + 6 < 14" "7 \<le> x + 6" by simp_all
  then have "(x + 6) div 7 = 1"
    by (simp add: div_nat_eqI)
  with False show ?thesis by simp
qed

lemma week_first:
  fixes d w :: nat
  assumes "1 \<le> d" "1 \<le> w" "w \<le> 7"
  shows "(d - (8 - w) + 6) div 7 = (d + w - 2) div 7"
proof (cases "8 - w \<le> d")
  case True
  then have "d - (8 - w) + 6 = d + w - 2"
    using assms by linarith
  then show ?thesis by simp
next
  case False
  then have "d - (8 - w) = 0" "d + w - 2 < 7"
    using assms by linarith+
  then show ?thesis by simp
qed

lemma week_max:
  fixes d w :: nat
  assumes "w \<le> 7" "d \<le> 31"
  shows "1 + (d + w - 2) div 7 \<le> 6"
proof -
  have "d + w - 2 \<le> 36"
    using assms by linarith
  then have "(d + w - 2) div 7 \<le> 36 div 7"
    by (rule div_le_mono)
  then show ?thesis by simp
qed

lemma week_one:
  fixes d w :: nat
  assumes "1 \<le> d" "1 \<le> w" "w \<le> 7"
  shows "(1 + (d + w - 2) div 7 = 1) = (d \<le> 8 - w)"
proof -
  have "((d + w - 2) div 7 = 0) = (d + w - 2 < 7)"
    by (simp add: div_eq_0_iff)
  also have "\<dots> = (d \<le> 8 - w)"
    using assms by linarith
  finally show ?thesis by simp
qed

lemma get_week_of_month_loop_closed:
  "unat day + 7 < 2 ^ 32 \<Longrightarrow> unat count + (unat day - unat weekend_day) < 2 ^ 32 \<Longrightarrow>
   unat (get_week_of_month_loop day count weekend_day) =
     unat count + (unat day - unat weekend_day + 6) div 7"
proof (induction day count weekend_day rule: get_week_of_month_loop.induct)
  case (1 day count weekend_day)
  show ?case
  proof (cases "weekend_day < day")
    case True
    then have lt: "unat weekend_day < unat day"
      by (simp add: word_less_nat_alt)
    have w7: "unat (weekend_day + 7) = unat weekend_day + 7"
      using lt "1.prems"(1) by (simp add: unat_word_ariths)
    have c1: "unat (count + 1) = unat count + 1"
      using lt "1.prems"(2) by (simp add: unat_word_ariths)
    have p2: "unat (count + 1) + (unat day - unat (weekend_day + 7)) < 2 ^ 32"
      using lt "1.prems"(2) unfolding w7 c1 by linarith
    have "unat (get_week_of_month_loop day (count + 1) (weekend_day + 7)) =
            unat (count + 1) + (unat day - unat (weekend_day + 7) + 6) div 7"
      using True "1.prems"(1) p2 by (rule "1.IH")
    also have "\<dots> = unat count + Suc ((unat day - unat weekend_day - 7 + 6) div 7)"
      by (simp add: w7 c1)
    also have "\<dots> = unat count + (unat day - unat weekend_day + 6) div 7"
      using lt by (simp only: week_step zero_less_diff)
    finally show ?thesis
      using True by (simp add: get_week_of_month_loop.simps [of day count weekend_day])
  next
    case False
    then have "unat day - unat weekend_day = 0"
      by (simp add: word_less_nat_alt)
    then show ?thesis
      using False by (simp add: get_week_of_month_loop.simps [of day count weekend_day])
  qed
qed

text \<open>
  For a day of the month and a weekday index from 1 to 7 the result is
  \<open>1 + (day + weekday - 2) div 7\<close>: it is 1 up to day \<open>8 - weekday\<close>, grows by one every
  seven days after it, and lies between 1 and 6.
\<close>

lemma get_week_of_month_closed:
  assumes "1 \<le> convert 1 month year" "convert 1 month year \<le> 7" "1 \<le> day" "day \<le> 31"
  shows "unat (get_week_of_month convert day month year) =
           1 + (unat day + unat (convert 1 month year) - 2) div 7"
proof -
  let ?w = "convert 1 month year"
  have w: "1 \<le> unat ?w" "unat ?w \<le> 7" and d: "1 \<le> unat day" "unat day \<le> 31"
    using assms by (simp_all add: word_le_nat_alt)
  have we: "unat (8 - ?w) = 8 - unat ?w"
    using w by (simp add: unat_sub word_le_nat_alt)
  have "unat (get_week_of_month_loop day 1 (8 - ?w)) =
          unat (1 :: u32) + (unat day - unat (8 - ?w) + 6) div 7"
    using d by (intro get_week_of_month_loop_closed) simp_all
  also have "\<dots> = 1 + (unat day - (8 - unat ?w) + 6) div 7"
    by (simp only: we unat_1)
  also have "\<dots> = 1 + (unat day + unat ?w - 2) div 7"
    using d(1) w by (simp only: week_first)
  finally show ?thesis
    by (simp add: get_week_of_month_def)
qed

lemma get_week_of_month_range:
  assumes "1 \<le> convert 1 month year" "convert 1 month year \<le> 7" "1 \<le> day" "day \<le> 31"
  shows "1 \<le> get_week_of_month convert day month year \<and>
         get_week_of_month convert day month year \<le> 6"
proof -
  have "unat (convert 1 month year) \<le> 7" "unat day \<le> 31"
    using assms by (simp_all add: word_le_nat_alt)
  then have "1 + (unat day + unat (convert 1 month year) - 2) div 7 \<le> 6"
    by (rule week_max)
  then show ?thesis
    using get_week_of_month_closed [where convert = convert and day = day] assms
    by (simp add: word_le_nat_alt)
qed

lemma get_week_of_month_first_week:
  assumes "1 \<le> convert 1 month year" "convert 1 month year \<le> 7" "1 \<le> day" "day \<le> 31"
  shows "(get_week_of_month convert day month year = 1) = (day \<le> 8 - convert 1 month year)"
proof -
  let ?w = "convert 1 month year"
  have w: "1 \<le> unat ?w" "unat ?w \<le> 7" and d: "1 \<le> unat day" "unat day \<le> 31"
    using assms by (simp_all add: word_le_nat_alt)
  have we: "unat (8 - ?w) = 8 - unat ?w"
    using w by (simp add: unat_sub word_le_nat_alt)
  have closed: "unat (get_week_of_month convert day month year) =
      1 + (unat day + unat ?w - 2) div 7"
    using get_week_of_month_closed [where convert = convert and day = day] assms by simp
  have "(get_week_of_month convert day month year = 1) =
          (unat (get_week_of_month convert day month year) = 1)"
    by (simp add: word_unat_eq_iff)
  also have "\<dots> = (unat day \<le> 8 - unat ?w)"
    unfolding closed using d(1) w by (rule week_one)
  finally show ?thesis
    by (simp add: word_le_nat_alt we)
qed

lemma get_week_of_month_mono:
  assumes "1 \<le> convert 1 month year" "convert 1 month year \<le> 7"
    and "1 \<le> day" "day \<le> day'" "day' \<le> 31"
  shows "get_week_of_month convert day month year \<le> get_week_of_month convert day' month year"
proof -
  have le: "unat day \<le> unat day'" and r: "day \<le> 31" "1 \<le> day'"
    using assms by (simp_all add: word_le_nat_alt)
  have "unat (get_week_of_month convert day month year) =
          1 + (unat day + unat (convert 1 month year) - 2) div 7"
    using get_week_of_month_closed [where convert = convert and day = day] assms r by simp
  moreover have "unat (get_week_of_month convert day' month year) =
          1 + (unat day' + unat (convert 1 month year) - 2) div 7"
    using get_week_of_month_closed [where convert = convert and day = day'] assms r by simp
  moreover have "(unat day + unat (convert 1 month year) - 2) div 7 \<le>
      (unat day' + unat (convert 1 month year) - 2) div 7"
    using le by (intro div_le_mono) linarith
  ultimately show ?thesis
    by (simp add: word_le_nat_alt)
qed

text \<open>
  C6. The specification gives the result of \<open>get_week_of_month\<close> the range 1..5,
  as the function's header comment does. The code returns 6 on day 30 of a month whose
  first day has the weekday index 7 (the lemmas above give the rest: the result is 1
  exactly up to day \<open>8 - weekday\<close>, it never decreases, and its range is 1..6).
\<close>

theorem get_week_of_month_sixth_week:
  "convert 1 month year = 7 \<Longrightarrow> get_week_of_month convert 30 month year = 6"
  by (simp add: get_week_of_month_def get_week_of_month_loop.simps)

theorem get_week_of_month_sixth_week_witness:
  "Cy_RTC_ConvertDayOfWeek 1 3 2025 = 7 \<and>
   validate_date_time 0 0 2 30 3 2025 = Some True \<and>
   get_week_of_month Cy_RTC_ConvertDayOfWeek 30 3 2025 = 6"
proof -
  have h: "Cy_RTC_ConvertDayOfWeek 1 3 2025 = 7"
    by (simp add: Cy_RTC_ConvertDayOfWeek_def)
  have "validate_date_time 0 0 2 30 3 2025 = Some True"
    by (simp add: validate_date_time_char range_checks_iff spec_month_length_def)
  then show ?thesis
    using h get_week_of_month_sixth_week [of Cy_RTC_ConvertDayOfWeek 3 2025] by simp
qed

subsection \<open>The steps of the flows\<close>

text \<open>With a timeout other than 0, \<open>get_character\<close> returns; so does
  \<open>fetch_time_data\<close>, whatever the line delivers.\<close>

lemma get_character_loop_returns:
  "timeout \<noteq> 0 \<Longrightarrow> get_character_loop rx v timeout timeoutTicks \<noteq> None"
  by (induction rx arbitrary: timeoutTicks) simp_all

lemma get_character_returns: "timeout \<noteq> 0 \<Longrightarrow> get_character rx v timeout \<noteq> None"
  by (simp add: get_character_def get_character_loop_returns)

lemma fetch_time_data_loop_returns:
  "fetch_time_data_loop rx buffer timeout_ms space_count index rslt ch echoed \<noteq> None"
proof (induction rx buffer timeout_ms space_count index rslt ch echoed
    rule: fetch_time_data_loop.induct)
  case (1 rx buffer timeout_ms space_count index rslt ch echoed)
  have "get_character rx ch UART_TIMEOUT_MS \<noteq> None"
    by (rule get_character_returns) (simp add: UART_TIMEOUT_MS_def)
  then obtain rslt' ch' rx' where g: "get_character rx ch UART_TIMEOUT_MS = Some (rslt', ch', rx')"
    by (cases "get_character rx ch UART_TIMEOUT_MS") auto
  show ?case
    using "1.IH" g
    by (subst fetch_time_data_loop.simps) auto
qed

lemma fetch_time_data_returns: "fetch_time_data buffer timeout_ms s \<noteq> None"
  using fetch_time_data_loop_returns
    [of "uart_rx s" buffer timeout_ms 0 0 CY_SCB_UART_SUCCESS 0 "[]"]
  by (auto simp: fetch_time_data_def)

lemma dst_status_fields:
  "uart_rx (dst_status c s) = uart_rx s"
  "dst_data_flag (dst_status c s) = dst_data_flag s"
  "dst_time (dst_status c s) = dst_time s"
  "century_data (dst_status c s) = century_data s"
  "rtc_clock (dst_status c s) = rtc_clock s"
  "rtc_rslt (dst_status c s) = rtc_rslt s"
  "rtc_calls (dst_status c s) = rtc_calls s"
  "irq_enabled (dst_status c s) = irq_enabled s"
  by (simp_all add: dst_status_def print_def Cy_RTC_GetDateAndTime_def Let_def)

lemma fetch_time_data_line:
  assumes "fetch_line (uart_rx s) timeout_ms = Some (rslt, rx', buffer, space_count, echoed)"
  shows "fetch_time_data zero_buffer timeout_ms s =
           Some (rslt, buffer, space_count,
                 s\<lparr>uart_rx := rx',
                   uart_tx := uart_tx s @ map Echo echoed @ [Message MSG_NEWLINE]\<rparr>)"
  using assms by (simp add: fetch_time_data_def)

lemma dst_start_step_valid:
  assumes "fetch_line (uart_rx s) timeout_ms = Some (CY_SCB_UART_SUCCESS, rx', buffer, 3, echoed)"
    and "scan4 c buffer (0, 0, 0, 0) = (h, d, m, y)"
    and "validate_date_time 0 0 h d m y = Some True"
    and "fmt = FIXED_DST_FORMAT \<or> fmt = RELATIVE_DST_FORMAT"
  shows "dst_start_step c timeout_ms fmt s =
           Returned ((h, d, m, y),
             s\<lparr>uart_rx := rx',
               uart_tx := uart_tx s @ [Message MSG_ENTER_DST_START] @ map Echo echoed @
                          [Message MSG_NEWLINE],
               dst_time := (dst_time s)\<lparr>startDst := dst_fields c fmt h d m y\<rparr>,
               dst_data_flag := DST_VALID_START_TIME_FLAG\<rparr>)"
proof -
  have "fetch_time_data zero_buffer timeout_ms (print MSG_ENTER_DST_START s) =
          Some (CY_SCB_UART_SUCCESS, buffer, 3,
                s\<lparr>uart_rx := rx',
                  uart_tx := uart_tx s @ [Message MSG_ENTER_DST_START] @ map Echo echoed @
                             [Message MSG_NEWLINE]\<rparr>)"
    using assms(1) by (simp add: fetch_time_data_def print_def)
  then show ?thesis
    using assms(2-4)
    by (simp add: dst_start_step_def MIN_SPACE_KEY_COUNT_DST_TIME_def)
qed

lemma dst_start_step_fails:
  assumes "fetch_line (uart_rx s) timeout_ms = Some (rslt, rx', buffer, space_count, echoed)"
    and "vars = (if rslt \<noteq> CY_SCB_UART_BAD_PARAM \<and> space_count = 3
                 then scan4 c buffer (0, 0, 0, 0) else (0, 0, 0, 0))"
    and "rslt = CY_SCB_UART_BAD_PARAM \<or> space_count \<noteq> 3 \<or>
         (case vars of (h, d, m, y) \<Rightarrow> validate_date_time 0 0 h d m y = Some False)"
  shows "dst_start_step c timeout_ms fmt s =
           Returned (vars,
             s\<lparr>uart_rx := rx',
               uart_tx := uart_tx s @ [Message MSG_ENTER_DST_START] @ map Echo echoed @
                          [Message MSG_NEWLINE,
                           Message (if rslt = CY_SCB_UART_BAD_PARAM then MSG_TIMEOUT
                                    else MSG_INVALID_VALUES)]\<rparr>)"
proof -
  have "fetch_time_data zero_buffer timeout_ms (print MSG_ENTER_DST_START s) =
          Some (rslt, buffer, space_count,
                s\<lparr>uart_rx := rx',
                  uart_tx := uart_tx s @ [Message MSG_ENTER_DST_START] @ map Echo echoed @
                             [Message MSG_NEWLINE]\<rparr>)"
    using assms(1) by (simp add: fetch_time_data_def print_def)
  then show ?thesis
    using assms(2-3)
    by (cases "scan4 c buffer (0, 0, 0, 0)")
      (auto simp: dst_start_step_def MIN_SPACE_KEY_COUNT_DST_TIME_def print_def)
qed

lemma dst_end_step_valid:
  assumes "fetch_line (uart_rx s) timeout_ms = Some (CY_SCB_UART_SUCCESS, rx', buffer, 3, echoed)"
    and "scan4 c buffer vars = (h, d, m, y)"
    and "validate_date_time 0 0 h d m y = Some True"
    and "fmt = FIXED_DST_FORMAT \<or> fmt = RELATIVE_DST_FORMAT"
  shows "dst_end_step c timeout_ms fmt vars s =
           Returned
             (s\<lparr>uart_rx := rx',
                uart_tx := uart_tx s @ [Message MSG_ENTER_DST_END] @ map Echo echoed @
                           [Message MSG_NEWLINE],
                dst_time := (dst_time s)\<lparr>stopDst := dst_fields c fmt h d m y\<rparr>,
                dst_data_flag := DST_VALID_END_TIME_FLAG\<rparr>)"
proof -
  have "fetch_time_data zero_buffer timeout_ms (print MSG_ENTER_DST_END s) =
          Some (CY_SCB_UART_SUCCESS, buffer, 3,
                s\<lparr>uart_rx := rx',
                  uart_tx := uart_tx s @ [Message MSG_ENTER_DST_END] @ map Echo echoed @
                             [Message MSG_NEWLINE]\<rparr>)"
    using assms(1) by (simp add: fetch_time_data_def print_def)
  then show ?thesis
    using assms(2-4)
    by (simp add: dst_end_step_def MIN_SPACE_KEY_COUNT_DST_TIME_def)
qed

lemma dst_end_step_timeout:
  assumes "fetch_line (uart_rx s) timeout_ms =
             Some (CY_SCB_UART_BAD_PARAM, rx', buffer, space_count, echoed)"
  shows "dst_end_step c timeout_ms fmt vars s =
           Returned
             (s\<lparr>uart_rx := rx',
                uart_tx := uart_tx s @ [Message MSG_ENTER_DST_END] @ map Echo echoed @
                           [Message MSG_NEWLINE, Message MSG_TIMEOUT]\<rparr>)"
proof -
  have "fetch_time_data zero_buffer timeout_ms (print MSG_ENTER_DST_END s) =
          Some (CY_SCB_UART_BAD_PARAM, buffer, space_count,
                s\<lparr>uart_rx := rx',
                  uart_tx := uart_tx s @ [Message MSG_ENTER_DST_END] @ map Echo echoed @
                             [Message MSG_NEWLINE]\<rparr>)"
    using assms(1) by (simp add: fetch_time_data_def print_def)
  then show ?thesis
    by (simp add: dst_end_step_def print_def)
qed

lemma dst_commit_step_commits:
  assumes "dst_data_flag s = DST_VALID_END_TIME_FLAG"
  shows "dst_commit_step s =
           (if rtc_rslt s 0 = CY_RTC_SUCCESS
            then Returned
                   (s\<lparr>current_time := rtc_clock s,
                      rtc_rslt := (\<lambda>n. rtc_rslt s (Suc n)),
                      rtc_calls := rtc_calls s @ [EnableDstTime (dst_time s) (rtc_clock s)],
                      dst_data_flag := DST_ENABLED_FLAG,
                      uart_tx := uart_tx s @ [Message MSG_DST_UPDATED]\<rparr>)
            else Halted
                   (s\<lparr>current_time := rtc_clock s,
                      rtc_rslt := (\<lambda>n. rtc_rslt s (Suc n)),
                      rtc_calls := rtc_calls s @ [EnableDstTime (dst_time s) (rtc_clock s)],
                      irq_enabled := False\<rparr>))"
  using assms
  by (auto simp: dst_commit_step_def Cy_RTC_EnableDstTime_def Cy_RTC_GetDateAndTime_def
      commit_def handle_error_def print_def)

lemma dst_commit_step_skips:
  "dst_data_flag s \<noteq> DST_VALID_END_TIME_FLAG \<Longrightarrow> dst_commit_step s = Returned s"
  by (auto simp: dst_commit_step_def)

lemma dst_disable_commits:
  "dst_disable s =
     (if rtc_rslt s 0 = CY_RTC_SUCCESS
      then Returned
             (s\<lparr>dst_time := null_schedule,
                current_time := rtc_clock s,
                rtc_rslt := (\<lambda>n. rtc_rslt s (Suc n)),
                rtc_calls := rtc_calls s @ [EnableDstTime null_schedule (rtc_clock s)],
                dst_data_flag := DST_DISABLED_FLAG,
                uart_tx := uart_tx s @ [Message MSG_DST_DISABLED]\<rparr>)
      else Halted
             (s\<lparr>dst_time := null_schedule,
                current_time := rtc_clock s,
                rtc_rslt := (\<lambda>n. rtc_rslt s (Suc n)),
                rtc_calls := rtc_calls s @ [EnableDstTime null_schedule (rtc_clock s)],
                irq_enabled := False\<rparr>))"
  by (auto simp: dst_disable_def Cy_RTC_EnableDstTime_def Cy_RTC_GetDateAndTime_def
      commit_def handle_error_def print_def null_schedule_def null_rule_def Let_def)

subsection \<open>The DST flows\<close>

text \<open>The enable branch up to its first prompt: the state in which the start-time step
  begins, once the command and the format selector have been read.\<close>

lemma set_dst_feature_enable:
  assumes "get_character (uart_rx s) 0 timeout_ms =
             Some (CY_SCB_UART_SUCCESS, RTC_CMD_ENABLE_DST, rx1)"
    and "get_character rx1 0 timeout_ms = Some (CY_SCB_UART_SUCCESS, fmt, rx2)"
  shows "set_dst_feature c timeout_ms s =
           and_then
             (dst_start_step c timeout_ms fmt
                ((dst_status c s)
                   \<lparr>uart_tx := uart_tx (dst_status c s) @ [Message MSG_ENTER_DST_FORMAT],
                    uart_rx := rx2\<rparr>))
             (\<lambda>(vars, s1).
                and_then
                  (if DST_VALID_START_TIME_FLAG = dst_data_flag s1
                   then dst_end_step c timeout_ms fmt vars s1
                   else Returned s1)
                  dst_commit_step)"
  using assms
  by (simp add: set_dst_feature_def dst_enable_def dst_status_fields print_def Let_def)

lemma set_dst_feature_disable:
  assumes "get_character (uart_rx s) 0 timeout_ms =
             Some (CY_SCB_UART_SUCCESS, RTC_CMD_DISABLE_DST, rx1)"
  shows "set_dst_feature c timeout_ms s = dst_disable ((dst_status c s)\<lparr>uart_rx := rx1\<rparr>)"
  using assms
  by (simp add: set_dst_feature_def dst_status_fields Let_def
      RTC_CMD_ENABLE_DST_def RTC_CMD_DISABLE_DST_def)

text \<open>
  C2. From the Disabled state, an enable flow that reads the command, a valid format
  selector, a start line with exactly 3 spaces that passes validation and an end line
  with exactly 3 spaces that passes validation commits the schedule built from the two
  lines, with the clock as read. When the commit succeeds the function returns with the
  flag at \<open>DST_ENABLED_FLAG\<close>; when it fails \<open>handle_error\<close> parks the program with
  interrupts disabled.
\<close>

theorem enable_flow_commits:
  assumes "dst_data_flag s = DST_DISABLED_FLAG"
    and "get_character (uart_rx s) 0 timeout_ms =
           Some (CY_SCB_UART_SUCCESS, RTC_CMD_ENABLE_DST, rx1)"
    and "get_character rx1 0 timeout_ms = Some (CY_SCB_UART_SUCCESS, fmt, rx2)"
    and "fmt = FIXED_DST_FORMAT \<or> fmt = RELATIVE_DST_FORMAT"
    and "fetch_line rx2 timeout_ms = Some (CY_SCB_UART_SUCCESS, rx3, buffer1, 3, echoed1)"
    and "scan4 c buffer1 (0, 0, 0, 0) = (h1, d1, m1, y1)"
    and "validate_date_time 0 0 h1 d1 m1 y1 = Some True"
    and "fetch_line rx3 timeout_ms = Some (CY_SCB_UART_SUCCESS, rx4, buffer2, 3, echoed2)"
    and "scan4 c buffer2 (h1, d1, m1, y1) = (h2, d2, m2, y2)"
    and "validate_date_time 0 0 h2 d2 m2 y2 = Some True"
  shows "\<exists>s'. set_dst_feature c timeout_ms s =
                (if rtc_rslt s 0 = CY_RTC_SUCCESS then Returned s' else Halted s') \<and>
              dst_time s' = \<lparr>startDst = dst_fields c fmt h1 d1 m1 y1,
                              stopDst = dst_fields c fmt h2 d2 m2 y2\<rparr> \<and>
              rtc_calls s' = rtc_calls s @ [EnableDstTime (dst_time s') (rtc_clock s)] \<and>
              (if rtc_rslt s 0 = CY_RTC_SUCCESS
               then dst_data_flag s' = DST_ENABLED_FLAG \<and> irq_enabled s' = irq_enabled s
               else \<not> irq_enabled s')"
proof -
  define sb where "sb = (dst_status c s)
     \<lparr>uart_tx := uart_tx (dst_status c s) @ [Message MSG_ENTER_DST_FORMAT], uart_rx := rx2\<rparr>"
  define sc where "sc = sb
     \<lparr>uart_rx := rx3,
      uart_tx := uart_tx sb @ [Message MSG_ENTER_DST_START] @ map Echo echoed1 @
                 [Message MSG_NEWLINE],
      dst_time := (dst_time sb)\<lparr>startDst := dst_fields c fmt h1 d1 m1 y1\<rparr>,
      dst_data_flag := DST_VALID_START_TIME_FLAG\<rparr>"
  define sd where "sd = sc
     \<lparr>uart_rx := rx4,
      uart_tx := uart_tx sc @ [Message MSG_ENTER_DST_END] @ map Echo echoed2 @
                 [Message MSG_NEWLINE],
      dst_time := (dst_time sc)\<lparr>stopDst := dst_fields c fmt h2 d2 m2 y2\<rparr>,
      dst_data_flag := DST_VALID_END_TIME_FLAG\<rparr>"
  have enable: "set_dst_feature c timeout_ms s =
      and_then (dst_start_step c timeout_ms fmt sb)
        (\<lambda>(vars, s1).
           and_then
             (if DST_VALID_START_TIME_FLAG = dst_data_flag s1
              then dst_end_step c timeout_ms fmt vars s1
              else Returned s1)
             dst_commit_step)"
    unfolding sb_def by (rule set_dst_feature_enable [OF assms(2,3)])
  have start: "dst_start_step c timeout_ms fmt sb = Returned ((h1, d1, m1, y1), sc)"
    unfolding sc_def using assms(4-7) by (intro dst_start_step_valid) (simp_all add: sb_def)
  have stop: "dst_end_step c timeout_ms fmt (h1, d1, m1, y1) sc = Returned sd"
    unfolding sd_def using assms(4) assms(8-10)
    by (intro dst_end_step_valid) (simp_all add: sc_def)
  have flags: "dst_data_flag sc = DST_VALID_START_TIME_FLAG"
    "dst_data_flag sd = DST_VALID_END_TIME_FLAG"
    by (simp_all add: sc_def sd_def)
  have sd: "rtc_rslt sd = rtc_rslt s" "rtc_calls sd = rtc_calls s" "rtc_clock sd = rtc_clock s"
    "irq_enabled sd = irq_enabled s"
    "dst_time sd = \<lparr>startDst = dst_fields c fmt h1 d1 m1 y1,
                     stopDst = dst_fields c fmt h2 d2 m2 y2\<rparr>"
    by (simp_all add: sd_def sc_def sb_def dst_status_fields)
  have "set_dst_feature c timeout_ms s = dst_commit_step sd"
    by (simp add: enable start stop flags)
  then show ?thesis
    by (cases "rtc_rslt s 0 = CY_RTC_SUCCESS")
      (simp_all add: dst_commit_step_commits [OF flags(2)] sd)
qed

text \<open>
  C4. The disable action does not look at the state it starts in. It sets the start and
  the end rule to the canonical null rule and commits this schedule with the clock as
  read; when the commit succeeds the function returns with the flag at
  \<open>DST_DISABLED_FLAG\<close>, otherwise \<open>handle_error\<close> parks the program. A second
  disable right after a successful one commits the same schedule again and leaves the
  schedule and the flag as the first left them.
\<close>

theorem disable_commits_null_schedule:
  assumes "get_character (uart_rx s) 0 timeout_ms =
             Some (CY_SCB_UART_SUCCESS, RTC_CMD_DISABLE_DST, rx1)"
  shows "\<exists>s1. set_dst_feature c timeout_ms s =
                 (if rtc_rslt s 0 = CY_RTC_SUCCESS then Returned s1 else Halted s1) \<and>
               dst_time s1 = null_schedule \<and>
               rtc_calls s1 = rtc_calls s @ [EnableDstTime null_schedule (rtc_clock s)] \<and>
               (if rtc_rslt s 0 = CY_RTC_SUCCESS
                then dst_data_flag s1 = DST_DISABLED_FLAG \<and> irq_enabled s1 = irq_enabled s
                else \<not> irq_enabled s1) \<and>
               (\<forall>rx2. rtc_rslt s 0 = CY_RTC_SUCCESS \<and> rtc_rslt s 1 = CY_RTC_SUCCESS \<and>
                      get_character rx1 0 timeout_ms =
                        Some (CY_SCB_UART_SUCCESS, RTC_CMD_DISABLE_DST, rx2) \<longrightarrow>
                  (\<exists>s2. set_dst_feature c timeout_ms s1 = Returned s2 \<and>
                        dst_time s2 = dst_time s1 \<and>
                        dst_data_flag s2 = dst_data_flag s1 \<and>
                        rtc_calls s2 =
                          rtc_calls s1 @ [EnableDstTime null_schedule (rtc_clock s)]))"
proof -
  define sa where "sa = (dst_status c s)\<lparr>uart_rx := rx1\<rparr>"
  define s1 where "s1 =
    (if rtc_rslt s 0 = CY_RTC_SUCCESS
     then sa\<lparr>dst_time := null_schedule,
            current_time := rtc_clock sa,
            rtc_rslt := (\<lambda>n. rtc_rslt sa (Suc n)),
            rtc_calls := rtc_calls sa @ [EnableDstTime null_schedule (rtc_clock sa)],
            dst_data_flag := DST_DISABLED_FLAG,
            uart_tx := uart_tx sa @ [Message MSG_DST_DISABLED]\<rparr>
     else sa\<lparr>dst_time := null_schedule,
            current_time := rtc_clock sa,
            rtc_rslt := (\<lambda>n. rtc_rslt sa (Suc n)),
            rtc_calls := rtc_calls sa @ [EnableDstTime null_schedule (rtc_clock sa)],
            irq_enabled := False\<rparr>)"
  have sa: "rtc_rslt sa = rtc_rslt s" "rtc_calls sa = rtc_calls s" "rtc_clock sa = rtc_clock s"
    "irq_enabled sa = irq_enabled s"
    by (simp_all add: sa_def dst_status_fields)
  have first: "set_dst_feature c timeout_ms s =
      (if rtc_rslt s 0 = CY_RTC_SUCCESS then Returned s1 else Halted s1)"
    unfolding set_dst_feature_disable [OF assms] sa_def [symmetric]
    by (simp add: dst_disable_commits sa s1_def)
  have s1: "dst_time s1 = null_schedule"
    "rtc_calls s1 = rtc_calls s @ [EnableDstTime null_schedule (rtc_clock s)]"
    "rtc_clock s1 = rtc_clock s"
    by (simp_all add: s1_def sa)
  have flag: "dst_data_flag s1 = DST_DISABLED_FLAG \<and> irq_enabled s1 = irq_enabled s"
    if "rtc_rslt s 0 = CY_RTC_SUCCESS"
    using that by (simp add: s1_def sa)
  have halted: "\<not> irq_enabled s1" if "rtc_rslt s 0 \<noteq> CY_RTC_SUCCESS"
    using that by (simp add: s1_def)
  have second: "\<exists>s2. set_dst_feature c timeout_ms s1 = Returned s2 \<and>
                  dst_time s2 = dst_time s1 \<and> dst_data_flag s2 = dst_data_flag s1 \<and>
                  rtc_calls s2 = rtc_calls s1 @ [EnableDstTime null_schedule (rtc_clock s)]"
    if ok: "rtc_rslt s 0 = CY_RTC_SUCCESS" "rtc_rslt s 1 = CY_RTC_SUCCESS"
      and cmd: "get_character rx1 0 timeout_ms =
                  Some (CY_SCB_UART_SUCCESS, RTC_CMD_DISABLE_DST, rx2)"
    for rx2
  proof -
    have rx: "uart_rx s1 = rx1" and next_rslt: "rtc_rslt s1 0 = CY_RTC_SUCCESS"
      using ok by (simp_all add: s1_def sa_def dst_status_fields)
    have "get_character (uart_rx s1) 0 timeout_ms =
            Some (CY_SCB_UART_SUCCESS, RTC_CMD_DISABLE_DST, rx2)"
      using cmd by (simp add: rx)
    then have "set_dst_feature c timeout_ms s1 = dst_disable ((dst_status c s1)\<lparr>uart_rx := rx2\<rparr>)"
      by (rule set_dst_feature_disable)
    then show ?thesis
      using next_rslt flag [OF ok(1)]
      by (simp add: dst_disable_commits dst_status_fields s1)
  qed
  show ?thesis
    using first s1 flag halted second by (intro exI [of _ s1]) auto
qed

text \<open>An enable flow whose start line is valid and whose end prompt times out.\<close>

lemma enable_flow_end_timeout:
  assumes "get_character (uart_rx s) 0 timeout_ms =
             Some (CY_SCB_UART_SUCCESS, RTC_CMD_ENABLE_DST, rx1)"
    and "get_character rx1 0 timeout_ms = Some (CY_SCB_UART_SUCCESS, fmt, rx2)"
    and "fmt = FIXED_DST_FORMAT \<or> fmt = RELATIVE_DST_FORMAT"
    and "fetch_line rx2 timeout_ms = Some (CY_SCB_UART_SUCCESS, rx3, buffer1, 3, echoed1)"
    and "scan4 c buffer1 (0, 0, 0, 0) = (h1, d1, m1, y1)"
    and "validate_date_time 0 0 h1 d1 m1 y1 = Some True"
    and "fetch_line rx3 timeout_ms =
           Some (CY_SCB_UART_BAD_PARAM, rx4, buffer2, space_count2, echoed2)"
  shows "\<exists>s'. set_dst_feature c timeout_ms s = Returned s' \<and>
              dst_data_flag s' = DST_VALID_START_TIME_FLAG \<and>
              startDst (dst_time s') = dst_fields c fmt h1 d1 m1 y1 \<and>
              stopDst (dst_time s') = stopDst (dst_time s) \<and>
              rtc_calls s' = rtc_calls s \<and>
              last (uart_tx s') = Message MSG_TIMEOUT \<and>
              uart_rx s' = rx4 \<and> rtc_rslt s' = rtc_rslt s \<and> rtc_clock s' = rtc_clock s \<and>
              irq_enabled s' = irq_enabled s"
proof -
  define sb where "sb = (dst_status c s)
     \<lparr>uart_tx := uart_tx (dst_status c s) @ [Message MSG_ENTER_DST_FORMAT], uart_rx := rx2\<rparr>"
  define sc where "sc = sb
     \<lparr>uart_rx := rx3,
      uart_tx := uart_tx sb @ [Message MSG_ENTER_DST_START] @ map Echo echoed1 @
                 [Message MSG_NEWLINE],
      dst_time := (dst_time sb)\<lparr>startDst := dst_fields c fmt h1 d1 m1 y1\<rparr>,
      dst_data_flag := DST_VALID_START_TIME_FLAG\<rparr>"
  define sd where "sd = sc
     \<lparr>uart_rx := rx4,
      uart_tx := uart_tx sc @ [Message MSG_ENTER_DST_END] @ map Echo echoed2 @
                 [Message MSG_NEWLINE, Message MSG_TIMEOUT]\<rparr>"
  have enable: "set_dst_feature c timeout_ms s =
      and_then (dst_start_step c timeout_ms fmt sb)
        (\<lambda>(vars, s1).
           and_then
             (if DST_VALID_START_TIME_FLAG = dst_data_flag s1
              then dst_end_step c timeout_ms fmt vars s1
              else Returned s1)
             dst_commit_step)"
    unfolding sb_def by (rule set_dst_feature_enable [OF assms(1,2)])
  have start: "dst_start_step c timeout_ms fmt sb = Returned ((h1, d1, m1, y1), sc)"
    unfolding sc_def using assms(3-6) by (intro dst_start_step_valid) (simp_all add: sb_def)
  have stop: "dst_end_step c timeout_ms fmt (h1, d1, m1, y1) sc = Returned sd"
    unfolding sd_def using assms(7) by (intro dst_end_step_timeout) (simp_all add: sc_def)
  have flags: "dst_data_flag sc = DST_VALID_START_TIME_FLAG"
    "dst_data_flag sd = DST_VALID_START_TIME_FLAG"
    by (simp_all add: sc_def sd_def)
  have skip: "dst_commit_step sd = Returned sd"
    by (rule dst_commit_step_skips)
      (simp add: flags DST_VALID_START_TIME_FLAG_def DST_VALID_END_TIME_FLAG_def)
  have sd: "rtc_calls sd = rtc_calls s"
    "startDst (dst_time sd) = dst_fields c fmt h1 d1 m1 y1"
    "stopDst (dst_time sd) = stopDst (dst_time s)"
    "last (uart_tx sd) = Message MSG_TIMEOUT"
    "uart_rx sd = rx4" "rtc_rslt sd = rtc_rslt s" "rtc_clock sd = rtc_clock s"
    "irq_enabled sd = irq_enabled s"
    by (simp_all add: sd_def sc_def sb_def dst_status_fields)
  have "set_dst_feature c timeout_ms s = Returned sd"
    by (simp add: enable start stop flags skip)
  then show ?thesis
    using flags(2) sd by auto
qed

text \<open>
  C5. When an enable flow has captured a valid start rule and the prompt for the end
  time times out, the function returns with the flag at \<open>DST_VALID_START_TIME_FLAG\<close>:
  the flag keeps the intermediate value and is not set back to the value it had before
  the flow; the start rule is the captured one, the end rule is untouched, and nothing
  is committed.
\<close>

theorem end_timeout_keeps_start_flag:
  assumes "get_character (uart_rx s) 0 timeout_ms =
             Some (CY_SCB_UART_SUCCESS, RTC_CMD_ENABLE_DST, rx1)"
    and "get_character rx1 0 timeout_ms = Some (CY_SCB_UART_SUCCESS, fmt, rx2)"
    and "fmt = FIXED_DST_FORMAT \<or> fmt = RELATIVE_DST_FORMAT"
    and "fetch_line rx2 timeout_ms = Some (CY_SCB_UART_SUCCESS, rx3, buffer1, 3, echoed1)"
    and "scan4 c buffer1 (0, 0, 0, 0) = (h1, d1, m1, y1)"
    and "validate_date_time 0 0 h1 d1 m1 y1 = Some True"
    and "fetch_line rx3 timeout_ms =
           Some (CY_SCB_UART_BAD_PARAM, rx4, buffer2, space_count2, echoed2)"
  shows "\<exists>s'. set_dst_feature c timeout_ms s = Returned s' \<and>
              dst_data_flag s' = DST_VALID_START_TIME_FLAG \<and>
              (dst_data_flag s \<noteq> DST_VALID_START_TIME_FLAG \<longrightarrow>
                 dst_data_flag s' \<noteq> dst_data_flag s) \<and>
              startDst (dst_time s') = dst_fields c fmt h1 d1 m1 y1 \<and>
              stopDst (dst_time s') = stopDst (dst_time s) \<and>
              rtc_calls s' = rtc_calls s \<and>
              last (uart_tx s') = Message MSG_TIMEOUT"
  using enable_flow_end_timeout [OF assms] by auto

text \<open>
  C10. The flag outlives the call. When a flow starts with the flag at
  \<open>DST_VALID_START_TIME_FLAG\<close> and its own start line times out, has a number of spaces
  other than 3 or fails validation, the flow still prompts for the end time; on a valid
  end line it commits a schedule whose start rule is the one the state held at entry,
  left by the earlier flow with that flow's format, and whose end rule has the format
  of this flow.
\<close>

theorem stale_start_rule_is_committed:
  assumes "dst_data_flag s = DST_VALID_START_TIME_FLAG"
    and "get_character (uart_rx s) 0 timeout_ms =
           Some (CY_SCB_UART_SUCCESS, RTC_CMD_ENABLE_DST, rx1)"
    and "get_character rx1 0 timeout_ms = Some (CY_SCB_UART_SUCCESS, fmt, rx2)"
    and "fmt = FIXED_DST_FORMAT \<or> fmt = RELATIVE_DST_FORMAT"
    and "fetch_line rx2 timeout_ms = Some (rslt1, rx3, buffer1, space_count1, echoed1)"
    and "vars1 = (if rslt1 \<noteq> CY_SCB_UART_BAD_PARAM \<and> space_count1 = 3
                  then scan4 c buffer1 (0, 0, 0, 0) else (0, 0, 0, 0))"
    and "rslt1 = CY_SCB_UART_BAD_PARAM \<or> space_count1 \<noteq> 3 \<or>
         (case vars1 of (h, d, m, y) \<Rightarrow> validate_date_time 0 0 h d m y = Some False)"
    and "fetch_line rx3 timeout_ms = Some (CY_SCB_UART_SUCCESS, rx4, buffer2, 3, echoed2)"
    and "scan4 c buffer2 vars1 = (h2, d2, m2, y2)"
    and "validate_date_time 0 0 h2 d2 m2 y2 = Some True"
  shows "\<exists>s'. set_dst_feature c timeout_ms s =
                (if rtc_rslt s 0 = CY_RTC_SUCCESS then Returned s' else Halted s') \<and>
              Message MSG_ENTER_DST_END \<in> set (uart_tx s') \<and>
              dst_time s' = \<lparr>startDst = startDst (dst_time s),
                              stopDst = dst_fields c fmt h2 d2 m2 y2\<rparr> \<and>
              rtc_calls s' = rtc_calls s @ [EnableDstTime (dst_time s') (rtc_clock s)] \<and>
              (if rtc_rslt s 0 = CY_RTC_SUCCESS
               then dst_data_flag s' = DST_ENABLED_FLAG
               else \<not> irq_enabled s')"
proof -
  define sb where "sb = (dst_status c s)
     \<lparr>uart_tx := uart_tx (dst_status c s) @ [Message MSG_ENTER_DST_FORMAT], uart_rx := rx2\<rparr>"
  define sc where "sc = sb
     \<lparr>uart_rx := rx3,
      uart_tx := uart_tx sb @ [Message MSG_ENTER_DST_START] @ map Echo echoed1 @
                 [Message MSG_NEWLINE,
                  Message (if rslt1 = CY_SCB_UART_BAD_PARAM then MSG_TIMEOUT
                           else MSG_INVALID_VALUES)]\<rparr>"
  define sd where "sd = sc
     \<lparr>uart_rx := rx4,
      uart_tx := uart_tx sc @ [Message MSG_ENTER_DST_END] @ map Echo echoed2 @
                 [Message MSG_NEWLINE],
      dst_time := (dst_time sc)\<lparr>stopDst := dst_fields c fmt h2 d2 m2 y2\<rparr>,
      dst_data_flag := DST_VALID_END_TIME_FLAG\<rparr>"
  have enable: "set_dst_feature c timeout_ms s =
      and_then (dst_start_step c timeout_ms fmt sb)
        (\<lambda>(vars, s1).
           and_then
             (if DST_VALID_START_TIME_FLAG = dst_data_flag s1
              then dst_end_step c timeout_ms fmt vars s1
              else Returned s1)
             dst_commit_step)"
    unfolding sb_def by (rule set_dst_feature_enable [OF assms(2,3)])
  have line: "fetch_line (uart_rx sb) timeout_ms =
      Some (rslt1, rx3, buffer1, space_count1, echoed1)"
    using assms(5) by (simp add: sb_def)
  have start: "dst_start_step c timeout_ms fmt sb = Returned (vars1, sc)"
    unfolding sc_def by (rule dst_start_step_fails [OF line assms(6) assms(7)])
  have stop: "dst_end_step c timeout_ms fmt vars1 sc = Returned sd"
    unfolding sd_def using assms(4) assms(8-10)
    by (intro dst_end_step_valid) (simp_all add: sc_def)
  have flags: "dst_data_flag sc = DST_VALID_START_TIME_FLAG"
    "dst_data_flag sd = DST_VALID_END_TIME_FLAG"
    using assms(1) by (simp_all add: sc_def sd_def sb_def dst_status_fields)
  have sd: "rtc_rslt sd = rtc_rslt s" "rtc_calls sd = rtc_calls s" "rtc_clock sd = rtc_clock s"
    "Message MSG_ENTER_DST_END \<in> set (uart_tx sd)"
    "dst_time sd = \<lparr>startDst = startDst (dst_time s),
                     stopDst = dst_fields c fmt h2 d2 m2 y2\<rparr>"
    by (simp_all add: sd_def sc_def sb_def dst_status_fields)
  have "set_dst_feature c timeout_ms s = dst_commit_step sd"
    by (simp add: enable start stop flags)
  then show ?thesis
    by (cases "rtc_rslt s 0 = CY_RTC_SUCCESS")
      (simp_all add: dst_commit_step_commits [OF flags(2)] sd)
qed

subsection \<open>The set-time flow\<close>

text \<open>\<open>set_new_time\<close> returns on every line, every parse and every status of the clock
  driver: no path of it reaches \<open>handle_error\<close>.\<close>

lemma set_new_time_returns: "\<exists>s'. set_new_time c timeout_ms init s = Returned s'"
proof -
  obtain rslt buffer space_count s1 where
    f: "fetch_time_data zero_buffer timeout_ms (print MSG_ENTER_TIME s) =
          Some (rslt, buffer, space_count, s1)"
    using fetch_time_data_returns [of zero_buffer timeout_ms "print MSG_ENTER_TIME s"]
    by (cases "fetch_time_data zero_buffer timeout_ms (print MSG_ENTER_TIME s)") auto
  obtain hour mn sec mday month year where
    p: "scan6 c buffer init = (hour, mn, sec, mday, month, year)"
    by (cases "scan6 c buffer init") auto
  obtain valid where v: "validate_date_time sec mn hour mday month year = Some valid"
    by (simp add: validate_date_time_char)
  show ?thesis
    by (simp add: set_new_time_def f p v Cy_RTC_SetDateAndTimeDirect_def commit_def Let_def)
qed

text \<open>
  C8. In the set-time flow, when the line has been read and its number of spaces is not
  5, or the parsed fields fail validation, the function prints the "Invalid values"
  message and returns: nothing is committed to the clock, and \<open>century_data\<close> and the
  other variables of the program keep their values.
\<close>

theorem set_new_time_rejects:
  assumes "fetch_line (uart_rx s) timeout_ms =
             Some (CY_SCB_UART_SUCCESS, rx1, buffer, space_count, echoed)"
    and "scan6 c buffer init = (hour, mn, sec, mday, month, year)"
    and "space_count \<noteq> 5 \<or> validate_date_time sec mn hour mday month year = Some False"
  shows "\<exists>s'. set_new_time c timeout_ms init s = Returned s' \<and>
              last (uart_tx s') = Message MSG_INVALID_VALUES \<and>
              rtc_calls s' = rtc_calls s \<and>
              century_data s' = century_data s \<and>
              current_time s' = current_time s \<and>
              dst_time s' = dst_time s \<and>
              dst_data_flag s' = dst_data_flag s \<and>
              irq_enabled s' = irq_enabled s"
proof -
  have "fetch_time_data zero_buffer timeout_ms (print MSG_ENTER_TIME s) =
          Some (CY_SCB_UART_SUCCESS, buffer, space_count,
                s\<lparr>uart_rx := rx1,
                  uart_tx := uart_tx s @ [Message MSG_ENTER_TIME] @ map Echo echoed @
                             [Message MSG_NEWLINE]\<rparr>)"
    using assms(1) by (simp add: fetch_time_data_def print_def)
  then have "set_new_time c timeout_ms init s =
      Returned (s\<lparr>uart_rx := rx1,
                  uart_tx := uart_tx s @ [Message MSG_ENTER_TIME] @ map Echo echoed @
                             [Message MSG_NEWLINE, Message MSG_INVALID_VALUES]\<rparr>)"
    using assms(2,3)
    by (auto simp: set_new_time_def MIN_SPACE_KEY_COUNT_NEW_TIME_def print_def)
  then show ?thesis by simp
qed

text \<open>
  C3. The specification has every rejected commit end in \<open>handle_error\<close>. The DST
  flows do so (see C2 and C4), but the set-time flow does not: when \<open>Cy_RTC_SetDateAndTimeDirect\<close>
  rejects a valid date and time, \<open>set_new_time\<close> returns as after a success but for the
  missing message, with interrupts as they were and with \<open>century_data\<close> already
  changed.
\<close>

theorem set_new_time_ignores_rejected_commit:
  assumes "fetch_line (uart_rx s) timeout_ms =
             Some (CY_SCB_UART_SUCCESS, rx1, buffer, 5, echoed)"
    and "scan6 c buffer init = (hour, mn, sec, mday, month, year)"
    and "validate_date_time sec mn hour mday month year = Some True"
    and "rtc_rslt s 0 \<noteq> CY_RTC_SUCCESS"
  shows "\<exists>s'. set_new_time c timeout_ms init s = Returned s' \<and>
              irq_enabled s' = irq_enabled s \<and>
              rtc_calls s' =
                rtc_calls s @ [SetDateAndTimeDirect sec mn hour mday month (year mod 100)] \<and>
              century_data s' = (year div 100) * 100 \<and>
              uart_tx s' = uart_tx s @ [Message MSG_ENTER_TIME] @ map Echo echoed @
                           [Message MSG_NEWLINE]"
proof -
  have "fetch_time_data zero_buffer timeout_ms (print MSG_ENTER_TIME s) =
          Some (CY_SCB_UART_SUCCESS, buffer, 5,
                s\<lparr>uart_rx := rx1,
                  uart_tx := uart_tx s @ [Message MSG_ENTER_TIME] @ map Echo echoed @
                             [Message MSG_NEWLINE]\<rparr>)"
    using assms(1) by (simp add: fetch_time_data_def print_def)
  then show ?thesis
    using assms(2-4)
    by (simp add: set_new_time_def MIN_SPACE_KEY_COUNT_NEW_TIME_def
        Cy_RTC_SetDateAndTimeDirect_def commit_def)
qed

subsection \<open>Concrete runs\<close>

lemma boot_fields:
  "uart_rx (boot rx status) = rx"
  "dst_data_flag (boot rx status) = DST_DISABLED_FLAG"
  "rtc_rslt (boot rx status) n = status"
  "rtc_calls (boot rx status) = []"
  "rtc_clock (boot rx status) = clock0"
  "irq_enabled (boot rx status)"
  "century_data (boot rx status) = 2000"
  by (simp_all add: boot_def DST_DISABLED_FLAG_def)

lemma run_enable_cmd:
  "get_character (typed (''12'' @ text)) 0 timeout_ms =
     Some (CY_SCB_UART_SUCCESS, RTC_CMD_ENABLE_DST, typed (''2'' @ text))"
  by (simp add: get_character_def typed_def RTC_CMD_ENABLE_DST_def CY_SCB_UART_RX_NO_DATA_def)

lemma run_relative_fmt:
  "get_character (typed (''2'' @ text)) 0 timeout_ms =
     Some (CY_SCB_UART_SUCCESS, RELATIVE_DST_FORMAT, typed text)"
  by (simp add: get_character_def typed_def RELATIVE_DST_FORMAT_def CY_SCB_UART_RX_NO_DATA_def)

lemma run_disable_cmd:
  "get_character (typed (''2'' @ text)) 0 timeout_ms =
     Some (CY_SCB_UART_SUCCESS, RTC_CMD_DISABLE_DST, typed text)"
  by (simp add: get_character_def typed_def RTC_CMD_DISABLE_DST_def CY_SCB_UART_RX_NO_DATA_def)

lemma run_start_line:
  "fetch_line (typed ''02 30 03 2025\<newline>03 25 10 2025\<newline>'') INPUT_TIMEOUT_MS =
     Some (CY_SCB_UART_SUCCESS, typed ''03 25 10 2025\<newline>'',
           buffer_of ''02 30 03 2025'', 3, echo_of ''02 30 03 2025'')"
  by code_simp

lemma run_end_line:
  "fetch_line (typed ''03 25 10 2025\<newline>'') INPUT_TIMEOUT_MS =
     Some (CY_SCB_UART_SUCCESS, [], buffer_of ''03 25 10 2025'', 3, echo_of ''03 25 10 2025'')"
  by code_simp

lemma run_start_scan:
  "scan4 reference (buffer_of ''02 30 03 2025'') (0, 0, 0, 0) = (2, 30, 3, 2025)"
  by code_simp

lemma run_end_scan:
  "scan4 reference (buffer_of ''03 25 10 2025'') (2, 30, 3, 2025) = (3, 25, 10, 2025)"
  by code_simp

lemma run_start_valid: "validate_date_time 0 0 2 30 3 2025 = Some True"
  by (simp add: validate_date_time_char range_checks_iff spec_month_length_def)

lemma run_end_valid: "validate_date_time 0 0 3 25 10 2025 = Some True"
  by (simp add: validate_date_time_char range_checks_iff spec_month_length_def)

lemma run_start_rule:
  "dst_fields reference RELATIVE_DST_FORMAT 2 30 3 2025 =
     \<lparr>dst_format = CY_RTC_DST_RELATIVE, dst_hour = 2, dst_dayOfMonth = 1,
      dst_weekOfMonth = 6, dst_dayOfWeek = 1, dst_month = 3\<rparr>"
  by code_simp

lemma run_end_rule:
  "dst_fields reference RELATIVE_DST_FORMAT 3 25 10 2025 =
     \<lparr>dst_format = CY_RTC_DST_RELATIVE, dst_hour = 3, dst_dayOfMonth = 1,
      dst_weekOfMonth = 4, dst_dayOfWeek = 7, dst_month = 10\<rparr>"
  by code_simp

theorem enable_flow_commits_witness:
  "(\<exists>s'. set_dst_feature reference INPUT_TIMEOUT_MS
            (boot (typed ''1202 30 03 2025\<newline>03 25 10 2025\<newline>'') CY_RTC_SUCCESS) =
          Returned s' \<and>
          dst_data_flag s' = DST_ENABLED_FLAG \<and> irq_enabled s' \<and>
          dst_time s' =
            \<lparr>startDst = \<lparr>dst_format = CY_RTC_DST_RELATIVE, dst_hour = 2, dst_dayOfMonth = 1,
                          dst_weekOfMonth = 6, dst_dayOfWeek = 1, dst_month = 3\<rparr>,
             stopDst = \<lparr>dst_format = CY_RTC_DST_RELATIVE, dst_hour = 3, dst_dayOfMonth = 1,
                         dst_weekOfMonth = 4, dst_dayOfWeek = 7, dst_month = 10\<rparr>\<rparr> \<and>
          rtc_calls s' = [EnableDstTime (dst_time s') clock0]) \<and>
   (\<exists>s'. set_dst_feature reference INPUT_TIMEOUT_MS
            (boot (typed ''1202 30 03 2025\<newline>03 25 10 2025\<newline>'') CY_RTC_INVALID_STATE) =
          Halted s' \<and> \<not> irq_enabled s' \<and>
          rtc_calls s' = [EnableDstTime (dst_time s') clock0])"
proof -
  note runs = run_enable_cmd [of "''02 30 03 2025\<newline>03 25 10 2025\<newline>''" INPUT_TIMEOUT_MS]
    run_relative_fmt [of "''02 30 03 2025\<newline>03 25 10 2025\<newline>''" INPUT_TIMEOUT_MS]
    run_start_line run_end_line run_start_scan run_end_scan run_start_valid run_end_valid
  have accepted: "\<exists>s'. set_dst_feature reference INPUT_TIMEOUT_MS
        (boot (typed ''1202 30 03 2025\<newline>03 25 10 2025\<newline>'') CY_RTC_SUCCESS) =
      Returned s' \<and>
      dst_data_flag s' = DST_ENABLED_FLAG \<and> irq_enabled s' \<and>
      dst_time s' =
        \<lparr>startDst = \<lparr>dst_format = CY_RTC_DST_RELATIVE, dst_hour = 2, dst_dayOfMonth = 1,
                      dst_weekOfMonth = 6, dst_dayOfWeek = 1, dst_month = 3\<rparr>,
         stopDst = \<lparr>dst_format = CY_RTC_DST_RELATIVE, dst_hour = 3, dst_dayOfMonth = 1,
                     dst_weekOfMonth = 4, dst_dayOfWeek = 7, dst_month = 10\<rparr>\<rparr> \<and>
      rtc_calls s' = [EnableDstTime (dst_time s') clock0]"
    using enable_flow_commits
      [of "boot (typed ''1202 30 03 2025\<newline>03 25 10 2025\<newline>'') CY_RTC_SUCCESS"
        INPUT_TIMEOUT_MS "typed ''202 30 03 2025\<newline>03 25 10 2025\<newline>''"
        RELATIVE_DST_FORMAT "typed ''02 30 03 2025\<newline>03 25 10 2025\<newline>''"
        "typed ''03 25 10 2025\<newline>''" "buffer_of ''02 30 03 2025''"
        "echo_of ''02 30 03 2025''" reference 2 30 3 2025
        "[]" "buffer_of ''03 25 10 2025''" "echo_of ''03 25 10 2025''" 3 25 10 2025]
      runs
    by (simp add: boot_fields run_start_rule run_end_rule; blast)
  have rejected: "\<exists>s'. set_dst_feature reference INPUT_TIMEOUT_MS
        (boot (typed ''1202 30 03 2025\<newline>03 25 10 2025\<newline>'') CY_RTC_INVALID_STATE) =
      Halted s' \<and> \<not> irq_enabled s' \<and>
      rtc_calls s' = [EnableDstTime (dst_time s') clock0]"
    using enable_flow_commits
      [of "boot (typed ''1202 30 03 2025\<newline>03 25 10 2025\<newline>'') CY_RTC_INVALID_STATE"
        INPUT_TIMEOUT_MS "typed ''202 30 03 2025\<newline>03 25 10 2025\<newline>''"
        RELATIVE_DST_FORMAT "typed ''02 30 03 2025\<newline>03 25 10 2025\<newline>''"
        "typed ''03 25 10 2025\<newline>''" "buffer_of ''02 30 03 2025''"
        "echo_of ''02 30 03 2025''" reference 2 30 3 2025
        "[]" "buffer_of ''03 25 10 2025''" "echo_of ''03 25 10 2025''" 3 25 10 2025]
      runs
    by (simp add: boot_fields; blast)
  show ?thesis
    using accepted rejected by (rule conjI)
qed

theorem disable_commits_null_schedule_witness:
  "(\<exists>s1 s2. set_dst_feature reference INPUT_TIMEOUT_MS (boot (typed ''22'') CY_RTC_SUCCESS) =
            Returned s1 \<and>
            dst_time s1 = null_schedule \<and> dst_data_flag s1 = DST_DISABLED_FLAG \<and>
            rtc_calls s1 = [EnableDstTime null_schedule clock0] \<and>
            set_dst_feature reference INPUT_TIMEOUT_MS s1 = Returned s2 \<and>
            dst_time s2 = null_schedule \<and> dst_data_flag s2 = DST_DISABLED_FLAG \<and>
            rtc_calls s2 =
              [EnableDstTime null_schedule clock0, EnableDstTime null_schedule clock0]) \<and>
   (\<exists>s1. set_dst_feature reference INPUT_TIMEOUT_MS (boot (typed ''2'') CY_RTC_BAD_PARAM) =
          Halted s1 \<and> \<not> irq_enabled s1 \<and>
          rtc_calls s1 = [EnableDstTime null_schedule clock0])"
proof -
  have empty: "typed '''' = []"
    by (simp add: typed_def)
  obtain s1 where s1:
    "set_dst_feature reference INPUT_TIMEOUT_MS (boot (typed ''22'') CY_RTC_SUCCESS) =
       Returned s1"
    "dst_time s1 = null_schedule" "dst_data_flag s1 = DST_DISABLED_FLAG"
    "rtc_calls s1 = [EnableDstTime null_schedule clock0]"
    "\<exists>s2. set_dst_feature reference INPUT_TIMEOUT_MS s1 = Returned s2 \<and>
          dst_time s2 = dst_time s1 \<and> dst_data_flag s2 = dst_data_flag s1 \<and>
          rtc_calls s2 = rtc_calls s1 @ [EnableDstTime null_schedule clock0]"
    using disable_commits_null_schedule
      [of "boot (typed ''22'') CY_RTC_SUCCESS" INPUT_TIMEOUT_MS "typed ''2''" reference]
      run_disable_cmd [of "''2''" INPUT_TIMEOUT_MS]
      run_disable_cmd [of "''''" INPUT_TIMEOUT_MS]
    by (auto simp: boot_fields empty)
  then have twice: "\<exists>s1 s2.
      set_dst_feature reference INPUT_TIMEOUT_MS (boot (typed ''22'') CY_RTC_SUCCESS) =
        Returned s1 \<and>
      dst_time s1 = null_schedule \<and> dst_data_flag s1 = DST_DISABLED_FLAG \<and>
      rtc_calls s1 = [EnableDstTime null_schedule clock0] \<and>
      set_dst_feature reference INPUT_TIMEOUT_MS s1 = Returned s2 \<and>
      dst_time s2 = null_schedule \<and> dst_data_flag s2 = DST_DISABLED_FLAG \<and>
      rtc_calls s2 =
        [EnableDstTime null_schedule clock0, EnableDstTime null_schedule clock0]"
    by auto
  have rejected: "\<exists>s1.
      set_dst_feature reference INPUT_TIMEOUT_MS (boot (typed ''2'') CY_RTC_BAD_PARAM) =
        Halted s1 \<and> \<not> irq_enabled s1 \<and>
      rtc_calls s1 = [EnableDstTime null_schedule clock0]"
    using disable_commits_null_schedule
      [of "boot (typed ''2'') CY_RTC_BAD_PARAM" INPUT_TIMEOUT_MS "[]" reference]
      run_disable_cmd [of "''''" INPUT_TIMEOUT_MS]
    by (auto simp: boot_fields empty)
  show ?thesis
    using twice rejected by (rule conjI)
qed

lemma run_short_start_line:
  "fetch_line (typed ''02 30 03 2025\<newline>'') 300 =
     Some (CY_SCB_UART_SUCCESS, [], buffer_of ''02 30 03 2025'', 3, echo_of ''02 30 03 2025'')"
  by code_simp

lemma run_silence: "fetch_line [] 300 = Some (CY_SCB_UART_BAD_PARAM, [], zero_buffer, 0, [])"
  by code_simp

theorem end_timeout_keeps_start_flag_witness:
  "\<exists>s'. set_dst_feature reference 300 (boot (typed ''1202 30 03 2025\<newline>'') CY_RTC_SUCCESS) =
          Returned s' \<and>
        dst_data_flag s' = DST_VALID_START_TIME_FLAG \<and>
        dst_data_flag s' \<noteq> dst_data_flag (boot (typed ''1202 30 03 2025\<newline>'') CY_RTC_SUCCESS) \<and>
        startDst (dst_time s') =
          \<lparr>dst_format = CY_RTC_DST_RELATIVE, dst_hour = 2, dst_dayOfMonth = 1,
           dst_weekOfMonth = 6, dst_dayOfWeek = 1, dst_month = 3\<rparr> \<and>
        stopDst (dst_time s') = zero_rule \<and>
        rtc_calls s' = [] \<and>
        last (uart_tx s') = Message MSG_TIMEOUT"
  using end_timeout_keeps_start_flag
    [of "boot (typed ''1202 30 03 2025\<newline>'') CY_RTC_SUCCESS" 300
      "typed ''202 30 03 2025\<newline>''" RELATIVE_DST_FORMAT "typed ''02 30 03 2025\<newline>''"
      "[]" "buffer_of ''02 30 03 2025''" "echo_of ''02 30 03 2025''" reference 2 30 3 2025
      "[]" zero_buffer 0 "[]"]
    run_enable_cmd [of "''02 30 03 2025\<newline>''" 300]
    run_relative_fmt [of "''02 30 03 2025\<newline>''" 300]
    run_short_start_line run_silence run_start_scan run_start_valid
  by (simp add: boot_fields run_start_rule DST_DISABLED_FLAG_def DST_VALID_START_TIME_FLAG_def;
      simp add: boot_def)

lemma run_cmd_1:
  "get_character (typed ''1'' @ rest) 0 timeout_ms =
     Some (CY_SCB_UART_SUCCESS, RTC_CMD_ENABLE_DST, rest)"
  by (simp add: get_character_def typed_def RTC_CMD_ENABLE_DST_def CY_SCB_UART_RX_NO_DATA_def)

lemma run_fmt_1:
  "get_character (typed ''1'' @ rest) 0 timeout_ms =
     Some (CY_SCB_UART_SUCCESS, FIXED_DST_FORMAT, rest)"
  by (simp add: get_character_def typed_def FIXED_DST_FORMAT_def CY_SCB_UART_RX_NO_DATA_def)

lemma run_fmt_2:
  "get_character (typed ''2'' @ rest) 0 timeout_ms =
     Some (CY_SCB_UART_SUCCESS, RELATIVE_DST_FORMAT, rest)"
  by (simp add: get_character_def typed_def RELATIVE_DST_FORMAT_def CY_SCB_UART_RX_NO_DATA_def)

lemma run_first_start:
  "fetch_line (typed ''02 30 03 2025\<newline>'' @ replicate 319 CY_SCB_UART_RX_NO_DATA @
       second_flow_rx) 300 =
     Some (CY_SCB_UART_SUCCESS, replicate 319 CY_SCB_UART_RX_NO_DATA @ second_flow_rx,
           buffer_of ''02 30 03 2025'', 3, echo_of ''02 30 03 2025'')"
  by code_simp

lemma run_first_end:
  "fetch_line (replicate 319 CY_SCB_UART_RX_NO_DATA @ second_flow_rx) 300 =
     Some (CY_SCB_UART_BAD_PARAM, second_flow_rx, zero_buffer, 0, [])"
  by code_simp

lemma run_second_start:
  "fetch_line (typed ''02 30\<newline>'' @ typed ''03 25 10 2025\<newline>'') INPUT_TIMEOUT_MS =
     Some (CY_SCB_UART_SUCCESS, typed ''03 25 10 2025\<newline>'',
           buffer_of ''02 30'', 1, echo_of ''02 30'')"
  by code_simp

lemma run_second_scan:
  "scan4 reference (buffer_of ''03 25 10 2025'') (0, 0, 0, 0) = (3, 25, 10, 2025)"
  by code_simp

lemma run_fixed_rule:
  "dst_fields reference FIXED_DST_FORMAT 2 30 3 2025 =
     \<lparr>dst_format = CY_RTC_DST_FIXED, dst_hour = 2, dst_dayOfMonth = 30,
      dst_weekOfMonth = 1, dst_dayOfWeek = 1, dst_month = 3\<rparr>"
  by code_simp

theorem stale_start_rule_is_committed_witness:
  "\<exists>s1 s2. set_dst_feature reference 300 (boot first_flow_rx CY_RTC_SUCCESS) = Returned s1 \<and>
     dst_data_flag s1 = DST_VALID_START_TIME_FLAG \<and> rtc_calls s1 = [] \<and>
     set_dst_feature reference INPUT_TIMEOUT_MS s1 = Returned s2 \<and>
     Message MSG_ENTER_DST_END \<in> set (uart_tx s2) \<and>
     dst_data_flag s2 = DST_ENABLED_FLAG \<and>
     dst_time s2 =
       \<lparr>startDst = \<lparr>dst_format = CY_RTC_DST_FIXED, dst_hour = 2, dst_dayOfMonth = 30,
                     dst_weekOfMonth = 1, dst_dayOfWeek = 1, dst_month = 3\<rparr>,
        stopDst = \<lparr>dst_format = CY_RTC_DST_RELATIVE, dst_hour = 3, dst_dayOfMonth = 1,
                    dst_weekOfMonth = 4, dst_dayOfWeek = 7, dst_month = 10\<rparr>\<rparr> \<and>
     rtc_calls s2 = [EnableDstTime (dst_time s2) clock0]"
proof -
  let ?rx2 = "typed ''02 30 03 2025\<newline>'' @ replicate 319 CY_SCB_UART_RX_NO_DATA @
    second_flow_rx"
  have first: "\<exists>s1. set_dst_feature reference 300 (boot first_flow_rx CY_RTC_SUCCESS) =
      Returned s1 \<and>
      dst_data_flag s1 = DST_VALID_START_TIME_FLAG \<and>
      startDst (dst_time s1) = dst_fields reference FIXED_DST_FORMAT 2 30 3 2025 \<and>
      rtc_calls s1 = [] \<and> uart_rx s1 = second_flow_rx \<and>
      rtc_rslt s1 = (\<lambda>n. CY_RTC_SUCCESS) \<and> rtc_clock s1 = clock0"
    using enable_flow_end_timeout
      [of "boot first_flow_rx CY_RTC_SUCCESS" 300 "typed ''1'' @ ?rx2" FIXED_DST_FORMAT ?rx2
        "replicate 319 CY_SCB_UART_RX_NO_DATA @ second_flow_rx"
        "buffer_of ''02 30 03 2025''" "echo_of ''02 30 03 2025''" reference 2 30 3 2025
        second_flow_rx zero_buffer 0 "[]"]
      run_cmd_1 [of "typed ''1'' @ ?rx2" 300] run_fmt_1 [of ?rx2 300]
      run_first_start run_first_end run_start_scan run_start_valid
    by (simp add: boot_fields first_flow_rx_def; auto simp: boot_def)
  then obtain s1 where s1:
    "set_dst_feature reference 300 (boot first_flow_rx CY_RTC_SUCCESS) = Returned s1"
    "dst_data_flag s1 = DST_VALID_START_TIME_FLAG"
    "startDst (dst_time s1) = dst_fields reference FIXED_DST_FORMAT 2 30 3 2025"
    "rtc_calls s1 = []" "uart_rx s1 = second_flow_rx"
    "rtc_rslt s1 = (\<lambda>n. CY_RTC_SUCCESS)" "rtc_clock s1 = clock0"
    by blast
  let ?rx2' = "typed ''02 30\<newline>'' @ typed ''03 25 10 2025\<newline>''"
  have "\<exists>s2. set_dst_feature reference INPUT_TIMEOUT_MS s1 = Returned s2 \<and>
      Message MSG_ENTER_DST_END \<in> set (uart_tx s2) \<and>
      dst_data_flag s2 = DST_ENABLED_FLAG \<and>
      dst_time s2 =
        \<lparr>startDst = dst_fields reference FIXED_DST_FORMAT 2 30 3 2025,
         stopDst = dst_fields reference RELATIVE_DST_FORMAT 3 25 10 2025\<rparr> \<and>
      rtc_calls s2 = [EnableDstTime (dst_time s2) clock0]"
    using stale_start_rule_is_committed
      [of s1 INPUT_TIMEOUT_MS "typed ''2'' @ ?rx2'" RELATIVE_DST_FORMAT ?rx2'
        CY_SCB_UART_SUCCESS "typed ''03 25 10 2025\<newline>''" "buffer_of ''02 30''" 1
        "echo_of ''02 30''" "(0, 0, 0, 0)" reference
        "[]" "buffer_of ''03 25 10 2025''" "echo_of ''03 25 10 2025''" 3 25 10 2025]
      run_cmd_1 [of "typed ''2'' @ ?rx2'" INPUT_TIMEOUT_MS] run_fmt_2 [of ?rx2' INPUT_TIMEOUT_MS]
      run_second_start run_end_line run_second_scan run_end_valid
    by (simp add: s1 second_flow_rx_def; blast)
  then show ?thesis
    using s1(1,2,4) by (simp add: run_fixed_rule run_end_rule; blast)
qed

lemma run_two_fields:
  "fetch_line (typed ''12 30\<newline>'') INPUT_TIMEOUT_MS =
     Some (CY_SCB_UART_SUCCESS, [], buffer_of ''12 30'', 1, echo_of ''12 30'')"
  by code_simp

lemma run_two_fields_scan:
  "scan6 reference (buffer_of ''12 30'') (0, 0, 0, 0, 0, 0) = (12, 30, 0, 0, 0, 0)"
  by code_simp

lemma run_hour_25:
  "fetch_line (typed ''25 30 00 15 06 2025\<newline>'') INPUT_TIMEOUT_MS =
     Some (CY_SCB_UART_SUCCESS, [], buffer_of ''25 30 00 15 06 2025'', 5,
           echo_of ''25 30 00 15 06 2025'')"
  by code_simp

lemma run_hour_25_scan:
  "scan6 reference (buffer_of ''25 30 00 15 06 2025'') (0, 0, 0, 0, 0, 0) =
     (25, 30, 0, 15, 6, 2025)"
  by code_simp

lemma run_hour_25_invalid: "validate_date_time 0 30 25 15 6 2025 = Some False"
  by (simp add: validate_date_time_char range_checks_iff)

theorem set_new_time_rejects_witness:
  "(\<exists>s'. set_new_time reference INPUT_TIMEOUT_MS (0, 0, 0, 0, 0, 0)
            (boot (typed ''12 30\<newline>'') CY_RTC_SUCCESS) = Returned s' \<and>
          last (uart_tx s') = Message MSG_INVALID_VALUES \<and>
          rtc_calls s' = [] \<and> century_data s' = 2000) \<and>
   (\<exists>s'. set_new_time reference INPUT_TIMEOUT_MS (0, 0, 0, 0, 0, 0)
            (boot (typed ''25 30 00 15 06 2025\<newline>'') CY_RTC_SUCCESS) = Returned s' \<and>
          last (uart_tx s') = Message MSG_INVALID_VALUES \<and>
          rtc_calls s' = [] \<and> century_data s' = 2000)"
proof -
  have spaces: "\<exists>s'. set_new_time reference INPUT_TIMEOUT_MS (0, 0, 0, 0, 0, 0)
        (boot (typed ''12 30\<newline>'') CY_RTC_SUCCESS) = Returned s' \<and>
      last (uart_tx s') = Message MSG_INVALID_VALUES \<and>
      rtc_calls s' = [] \<and> century_data s' = 2000"
    using set_new_time_rejects
      [of "boot (typed ''12 30\<newline>'') CY_RTC_SUCCESS" INPUT_TIMEOUT_MS "[]"
        "buffer_of ''12 30''" 1 "echo_of ''12 30''" reference "(0, 0, 0, 0, 0, 0)"
        12 30 0 0 0 0]
      run_two_fields run_two_fields_scan
    by (simp add: boot_fields; blast)
  have range: "\<exists>s'. set_new_time reference INPUT_TIMEOUT_MS (0, 0, 0, 0, 0, 0)
        (boot (typed ''25 30 00 15 06 2025\<newline>'') CY_RTC_SUCCESS) = Returned s' \<and>
      last (uart_tx s') = Message MSG_INVALID_VALUES \<and>
      rtc_calls s' = [] \<and> century_data s' = 2000"
    using set_new_time_rejects
      [of "boot (typed ''25 30 00 15 06 2025\<newline>'') CY_RTC_SUCCESS" INPUT_TIMEOUT_MS "[]"
        "buffer_of ''25 30 00 15 06 2025''" 5 "echo_of ''25 30 00 15 06 2025''" reference
        "(0, 0, 0, 0, 0, 0)" 25 30 0 15 6 2025]
      run_hour_25 run_hour_25_scan run_hour_25_invalid
    by (simp add: boot_fields; blast)
  show ?thesis
    using spaces range by (rule conjI)
qed

lemma run_year_2125:
  "fetch_line (typed ''12 30 00 15 06 2125\<newline>'') INPUT_TIMEOUT_MS =
     Some (CY_SCB_UART_SUCCESS, [], buffer_of ''12 30 00 15 06 2125'', 5,
           echo_of ''12 30 00 15 06 2125'')"
  by code_simp

lemma run_year_2125_scan:
  "scan6 reference (buffer_of ''12 30 00 15 06 2125'') (0, 0, 0, 0, 0, 0) =
     (12, 30, 0, 15, 6, 2125)"
  by code_simp

lemma run_year_2125_valid: "validate_date_time 0 30 12 15 6 2125 = Some True"
  by (simp add: validate_date_time_char range_checks_iff spec_month_length_def)

theorem set_new_time_ignores_rejected_commit_witness:
  "\<exists>s'. set_new_time reference INPUT_TIMEOUT_MS (0, 0, 0, 0, 0, 0)
          (boot (typed ''12 30 00 15 06 2125\<newline>'') CY_RTC_INVALID_STATE) = Returned s' \<and>
        irq_enabled s' \<and>
        rtc_calls s' = [SetDateAndTimeDirect 0 30 12 15 6 25] \<and>
        century_data (boot (typed ''12 30 00 15 06 2125\<newline>'') CY_RTC_INVALID_STATE) = 2000 \<and>
        century_data s' = 2100 \<and>
        uart_tx s' = [Message MSG_ENTER_TIME] @ map Echo (echo_of ''12 30 00 15 06 2125'') @
                     [Message MSG_NEWLINE]"
  using set_new_time_ignores_rejected_commit
    [of "boot (typed ''12 30 00 15 06 2125\<newline>'') CY_RTC_INVALID_STATE" INPUT_TIMEOUT_MS "[]"
      "buffer_of ''12 30 00 15 06 2125''" "echo_of ''12 30 00 15 06 2125''" reference
      "(0, 0, 0, 0, 0, 0)" 12 30 0 15 6 2125]
    run_year_2125 run_year_2125_scan run_year_2125_valid
  by (simp add: boot_fields; simp add: boot_def)

lemma get_week_of_month_new_year_2024:
  "get_week_of_month Cy_RTC_ConvertDayOfWeek 1 1 2024 = 1"
  by code_simp

end
